theory Spec2Isabelle
  imports Complex_Main
begin

section \<open>Aligned Xception: the construction algorithm of \<^verbatim>\<open>timm/models/xception_aligned.py\<close>\<close>

text \<open>
  The module builds a network from a list of block configuration dicts. The embedding
  keeps what construction computes: the arguments every layer is created with, the names
  the layers are registered under, the running stride and dilation of the builder's loop,
  and the feature-info table. The numeric primitives of the framework (convolution,
  normalisation, activation, pooling, dropout, dense layer) stay parameters of the
  forward functions.

  Python integers are \<open>int\<close>, the float \<open>drop_rate\<close> is a \<open>real\<close> (only its truth
  value matters), a layer class is named by a string, and an exception is a value
  \<open>Inl e\<close> of a sum type.

  The constructors \<^verbatim>\<open>ConvBnAct\<close>, \<^verbatim>\<open>create_conv2d\<close>, \<^verbatim>\<open>SelectAdaptivePool2d\<close> and
  \<^verbatim>\<open>nn.Linear\<close> are defined outside this module. The embedding records the arguments they
  are called with and takes every such call to return: which arguments they refuse is not
  modelled. The exceptions of the embedding are those this module's own code raises, so a
  build of the program that returns is a build of the embedding with the same result, and
  the properties below are stated for builds that return or for this module's own
  checks.
\<close>

subsection \<open>Exceptions\<close>

datatype error =
    AssertionError  \<comment> \<open>a failed \<^verbatim>\<open>assert\<close>\<close>
  | AttributeError  \<comment> \<open>reading an attribute that was never assigned\<close>
  | TypeError       \<comment> \<open>calling \<^verbatim>\<open>None\<close> as a layer factory, a keyword given twice\<close>

subsection \<open>Layers created by the collaborators\<close>

type_synonym layer_cls = string
type_synonym kwargs = "(string \<times> real) list"

text \<open>\<^verbatim>\<open>ConvBnAct(in, out, kernel_size, stride=..., norm_layer=..., norm_kwargs=..., act_layer=...)\<close>:
  the arguments of the call, as the source passes them.\<close>

record ConvBnAct =
  cba_in_channels :: int
  cba_out_channels :: int
  cba_kernel_size :: int
  cba_stride :: int
  cba_norm_layer :: "layer_cls option"
  cba_norm_kwargs :: kwargs
  cba_act_layer :: "layer_cls option"

text \<open>\<^verbatim>\<open>create_conv2d(in, out, kernel_size, **kwargs)\<close>; a keyword the call leaves out is
  \<open>None\<close>.\<close>

record Conv2d =
  cv_in_channels :: int
  cv_out_channels :: int
  cv_kernel_size :: int
  cv_stride :: "int option"
  cv_padding :: "string option"
  cv_dilation :: "int option"
  cv_depthwise :: "bool option"

text \<open>\<^verbatim>\<open>norm_layer(channels, **norm_kwargs)\<close> and \<^verbatim>\<open>act_layer(inplace=...)\<close>.\<close>

record Norm =
  nm_cls :: layer_cls
  nm_channels :: int
  nm_kwargs :: kwargs

record Act =
  act_cls :: layer_cls
  act_inplace :: bool

subsection \<open>SeparableConv2d\<close>

record SeparableConv2d =
  sc_kernel_size :: int
  sc_dilation :: int
  sc_conv_dw :: Conv2d
  sc_bn_dw :: Norm
  sc_act_dw :: "Act option"
  sc_conv_pw :: Conv2d
  sc_bn_pw :: Norm
  sc_act_pw :: "Act option"

text \<open>Calling the factory \<open>norm_layer\<close>: \<^verbatim>\<open>None(...)\<close> raises TypeError.\<close>

definition call_norm_layer :: "layer_cls option \<Rightarrow> int \<Rightarrow> kwargs \<Rightarrow> error + Norm" where
  "call_norm_layer norm_layer chs norm_kwargs =
     (case norm_layer of
        None \<Rightarrow> Inl TypeError
      | Some cls \<Rightarrow> Inr \<lparr>nm_cls = cls, nm_channels = chs, nm_kwargs = norm_kwargs\<rparr>)"

definition call_act_layer :: "layer_cls option \<Rightarrow> Act option" where
  "call_act_layer act_layer =
     (case act_layer of
        None \<Rightarrow> None
      | Some cls \<Rightarrow> Some \<lparr>act_cls = cls, act_inplace = True\<rparr>)"

definition SeparableConv2d_init ::
  "int \<Rightarrow> int \<Rightarrow> int \<Rightarrow> int \<Rightarrow> int \<Rightarrow> string \<Rightarrow> layer_cls option \<Rightarrow> layer_cls option \<Rightarrow>
   kwargs option \<Rightarrow> error + SeparableConv2d" where
  "SeparableConv2d_init inplanes planes kernel_size strd dil padding act_layer norm_layer norm_kwargs =
     (let nkw = (case norm_kwargs of None \<Rightarrow> [] | Some k \<Rightarrow> k);
          conv_dw = \<lparr>cv_in_channels = inplanes, cv_out_channels = inplanes,
                     cv_kernel_size = kernel_size, cv_stride = Some strd,
                     cv_padding = Some padding, cv_dilation = Some dil,
                     cv_depthwise = Some True\<rparr>
      in case call_norm_layer norm_layer inplanes nkw of
           Inl e \<Rightarrow> Inl e
         | Inr bn_dw \<Rightarrow>
             (let act_dw = call_act_layer act_layer;
                  conv_pw = \<lparr>cv_in_channels = inplanes, cv_out_channels = planes,
                             cv_kernel_size = 1, cv_stride = None, cv_padding = None,
                             cv_dilation = None, cv_depthwise = None\<rparr>
              in case call_norm_layer norm_layer planes nkw of
                   Inl e \<Rightarrow> Inl e
                 | Inr bn_pw \<Rightarrow>
                     Inr \<lparr>sc_kernel_size = kernel_size, sc_dilation = dil,
                          sc_conv_dw = conv_dw, sc_bn_dw = bn_dw, sc_act_dw = act_dw,
                          sc_conv_pw = conv_pw, sc_bn_pw = bn_pw,
                          sc_act_pw = call_act_layer act_layer\<rparr>))"

subsection \<open>Block configuration dicts\<close>

text \<open>
  \<open>out_chs\<close> is an int or a list/tuple of ints. The keys \<open>pad_type\<close>,
  \<open>start_with_relu\<close> and \<open>no_skip\<close> carry the defaults of \<^verbatim>\<open>XceptionModule.__init__\<close>
  when the dict leaves them out; the key \<open>dilation\<close> is absent (\<open>None\<close>) until the
  builder assigns it.
\<close>

datatype out_chs_arg = ChsInt int | ChsSeq "int list"

record BlockCfg =
  in_chs :: int
  out_chs :: out_chs_arg
  stride :: int
  dilation :: "int option"
  pad_type :: string
  start_with_relu :: bool
  no_skip :: bool

text \<open>\<^verbatim>\<open>dict(in_chs=..., out_chs=..., stride=...)\<close> with the other keys left out.\<close>

definition block_dict :: "int \<Rightarrow> out_chs_arg \<Rightarrow> int \<Rightarrow> BlockCfg" where
  "block_dict i oc s =
     \<lparr>in_chs = i, out_chs = oc, stride = s, dilation = None, pad_type = [],
      start_with_relu = True, no_skip = False\<rparr>"

text \<open>\<^verbatim>\<open>xtra_args = dict(act_layer=..., norm_layer=..., norm_kwargs=...)\<close>.\<close>

record xtra_args =
  act_layer :: "layer_cls option"
  norm_layer :: "layer_cls option"
  norm_kwargs :: "kwargs option"

subsection \<open>XceptionModule\<close>

datatype stack_module = ActM Act | SepM SeparableConv2d

type_synonym stack = "(string \<times> stack_module) list"

record XceptionModule =
  xm_in_channels :: int
  xm_out_channels :: int
  xm_no_skip :: bool
  xm_shortcut :: "ConvBnAct option"
  xm_stack :: stack

text \<open>Python's \<^verbatim>\<open>str\<close> on an integer.\<close>

fun str_nat :: "nat \<Rightarrow> string" where
  "str_nat n =
     (if n < 10 then [''0123456789'' ! n]
      else str_nat (n div 10) @ [''0123456789'' ! (n mod 10)])"

declare str_nat.simps [simp del]

definition str_int :: "int \<Rightarrow> string" where
  "str_int i = (if i < 0 then CHR ''-'' # str_nat (nat (- i)) else str_nat (nat i))"

text \<open>Lines 84 to 87: a list or tuple must have three entries, anything else is repeated
  three times.\<close>

definition normalize_out_chs :: "out_chs_arg \<Rightarrow> error + int list" where
  "normalize_out_chs oc =
     (case oc of
        ChsSeq cs \<Rightarrow> if length cs = 3 then Inr cs else Inl AssertionError
      | ChsInt c \<Rightarrow> Inr [c, c, c])"

text \<open>Lines 100 to 106: the loop \<^verbatim>\<open>for i in range(3)\<close>, with the running \<open>in_chs\<close> and
  the modules added to \<open>self.stack\<close> so far. \<open>xtra\<close> holds the \<open>norm_kwargs\<close> of
  line 83, the key \<open>dilation\<close> left out of the dict is the default 1.\<close>

fun stack_loop ::
  "BlockCfg \<Rightarrow> xtra_args \<Rightarrow> int list \<Rightarrow> nat list \<Rightarrow> int \<Rightarrow> stack \<Rightarrow> error + stack" where
  "stack_loop b xtra chs [] inc st = Inr st"
| "stack_loop b xtra chs (i # is) inc st =
     (let separable_act_layer = (if start_with_relu b then None else act_layer xtra);
          st1 = (if start_with_relu b
                 then st @ [(''act'' @ str_nat (i + 1),
                             ActM \<lparr>act_cls = ''ReLU'', act_inplace = (i > 0)\<rparr>)]
                 else st)
      in case SeparableConv2d_init inc (chs ! i) 3 (if i = 2 then stride b else 1)
                (case dilation b of None \<Rightarrow> 1 | Some d \<Rightarrow> d) (pad_type b)
                separable_act_layer (norm_layer xtra) (norm_kwargs xtra) of
           Inl e \<Rightarrow> Inl e
         | Inr conv \<Rightarrow>
             stack_loop b xtra chs is (chs ! i)
               (st1 @ [(''conv'' @ str_nat (i + 1), SepM conv)]))"

text \<open>\<^verbatim>\<open>XceptionModule(**b, **xtra_args)\<close>.\<close>

definition XceptionModule_init :: "BlockCfg \<Rightarrow> xtra_args \<Rightarrow> error + XceptionModule" where
  "XceptionModule_init b xtra =
     (let nkw = (case norm_kwargs xtra of None \<Rightarrow> [] | Some k \<Rightarrow> k)
      in case normalize_out_chs (out_chs b) of
           Inl e \<Rightarrow> Inl e
         | Inr chs \<Rightarrow>
             (let out_channels = last chs;
                  shortcut =
                    (if \<not> no_skip b \<and> (out_channels \<noteq> in_chs b \<or> stride b \<noteq> 1)
                     then Some \<lparr>cba_in_channels = in_chs b, cba_out_channels = out_channels,
                                cba_kernel_size = 1, cba_stride = stride b,
                                cba_norm_layer = norm_layer xtra, cba_norm_kwargs = nkw,
                                cba_act_layer = None\<rparr>
                     else None)
              in case stack_loop b (xtra\<lparr>norm_kwargs := Some nkw\<rparr>) chs [0, 1, 2] (in_chs b) [] of
                   Inl e \<Rightarrow> Inl e
                 | Inr st \<Rightarrow>
                     Inr \<lparr>xm_in_channels = in_chs b, xm_out_channels = out_channels,
                          xm_no_skip = no_skip b, xm_shortcut = shortcut, xm_stack = st\<rparr>))"

subsection \<open>ClassifierHead\<close>

datatype fc_module = Linear int int bool | Identity

record ClassifierHead =
  ch_drop_rate :: real
  ch_global_pool :: string
  ch_fc :: fc_module

definition ClassifierHead_init :: "int \<Rightarrow> int \<Rightarrow> string \<Rightarrow> real \<Rightarrow> ClassifierHead" where
  "ClassifierHead_init inc ncls pool_type drate =
     \<lparr>ch_drop_rate = drate, ch_global_pool = pool_type,
      ch_fc = (if ncls > 0 then Linear inc ncls True else Identity)\<rparr>"

subsection \<open>XceptionAligned\<close>

record FeatureInfo =
  num_chs :: int
  reduction :: int
  module :: string

record XceptionAligned =
  num_classes :: int
  drop_rate :: real
  stem :: "ConvBnAct list"
  feature_info :: "FeatureInfo list"
  blocks :: "(string \<times> XceptionModule) list"
  num_features :: int
  head :: ClassifierHead

text \<open>The keyword arguments of \<^verbatim>\<open>XceptionAligned.__init__\<close> and their defaults.\<close>

record XceptionAligned_args =
  a_num_classes :: int
  a_in_chans :: int
  a_output_stride :: int
  a_act_layer :: "layer_cls option"
  a_norm_layer :: "layer_cls option"
  a_norm_kwargs :: "kwargs option"
  a_drop_rate :: real
  a_global_pool :: string

definition default_args :: XceptionAligned_args where
  "default_args =
     \<lparr>a_num_classes = 1000, a_in_chans = 3, a_output_stride = 32,
      a_act_layer = Some ''ReLU'', a_norm_layer = Some ''BatchNorm2d'',
      a_norm_kwargs = None, a_drop_rate = 0, a_global_pool = ''avg''\<rparr>"

text \<open>
  \<open>block_cfg\<close> is a Python list of dict objects, and the builder writes to them. The
  dicts live in a store \<open>addr \<Rightarrow> BlockCfg\<close>, the list holds their addresses; an
  address that occurs twice is one dict listed twice, as in \<^verbatim>\<open>[dict(...)] * 8\<close>.
\<close>

type_synonym addr = nat
type_synonym dicts = "addr \<Rightarrow> BlockCfg"

text \<open>The local variables of the loop and the attributes of \<open>self\<close> it updates.
  \<open>st_num_features\<close> is \<open>None\<close> while \<^verbatim>\<open>self.num_features\<close> is unassigned.\<close>

record build_state =
  curr_stride :: int
  curr_dilation :: int
  st_blocks :: "(string \<times> XceptionModule) list"
  st_num_features :: "int option"
  st_feature_info :: "FeatureInfo list"

text \<open>Lines 155 to 159: the state before the first block.\<close>

definition init_state :: build_state where
  "init_state =
     \<lparr>curr_stride = 2, curr_dilation = 1, st_blocks = [], st_num_features = None,
      st_feature_info = [\<lparr>num_chs = 64, reduction = 2, module = ''stem.1''\<rparr>]\<rparr>"

text \<open>Lines 161 to 170, the stride and dilation planning of one block: the flag
  \<open>feature_extract\<close>, the new \<open>curr_stride\<close> and \<open>curr_dilation\<close>, and the dict as
  rewritten.\<close>

definition plan_block :: "int \<Rightarrow> int \<Rightarrow> int \<Rightarrow> BlockCfg \<Rightarrow> bool \<times> int \<times> int \<times> BlockCfg" where
  "plan_block output_stride cs cd b =
     (let b1 = b\<lparr>dilation := Some cd\<rparr>
      in if stride b1 > 1
         then (let next_stride = cs * stride b1
               in if next_stride > output_stride
                  then (True, cs, cd * stride b1, b1\<lparr>stride := 1\<rparr>)
                  else (True, next_stride, cd, b1))
         else (False, cs, cd, b1))"

text \<open>Lines 161 to 175, the body of the loop for the block at index \<open>i\<close>, whose dict is
  at address \<open>a\<close>: the dict is rewritten in the store, then the module is built from it
  and registered as \<open>str(i)\<close>.\<close>

definition block_step ::
  "int \<Rightarrow> xtra_args \<Rightarrow> nat \<Rightarrow> addr \<Rightarrow> dicts \<times> build_state \<Rightarrow> error + dicts \<times> build_state" where
  "block_step output_stride xtra i a hs =
     (case hs of (h, s) \<Rightarrow>
        (case plan_block output_stride (curr_stride s) (curr_dilation s) (h a) of
           (feature_extract, cs, cd, b) \<Rightarrow>
             (case XceptionModule_init b xtra of
                Inl e \<Rightarrow> Inl e
              | Inr m \<Rightarrow>
                  Inr (h(a := b),
                       \<lparr>curr_stride = cs, curr_dilation = cd,
                        st_blocks = st_blocks s @ [(str_nat i, m)],
                        st_num_features = Some (xm_out_channels m),
                        st_feature_info =
                          (if feature_extract
                           then st_feature_info s @
                                [\<lparr>num_chs = xm_out_channels m, reduction = cs,
                                  module = ''blocks.'' @ str_nat i @ ''.stack.act2''\<rparr>]
                           else st_feature_info s)\<rparr>))))"

text \<open>Lines 160 to 175: the loop over \<^verbatim>\<open>enumerate(block_cfg)\<close> from index \<open>i\<close> on.\<close>

fun blocks_loop ::
  "int \<Rightarrow> xtra_args \<Rightarrow> nat \<Rightarrow> addr list \<Rightarrow> dicts \<times> build_state \<Rightarrow>
   error + dicts \<times> build_state" where
  "blocks_loop output_stride xtra i [] hs = Inr hs"
| "blocks_loop output_stride xtra i (a # as) hs =
     (case block_step output_stride xtra i a hs of
        Inl e \<Rightarrow> Inl e
      | Inr hs' \<Rightarrow> blocks_loop output_stride xtra (Suc i) as hs')"

text \<open>Lines 148 to 150: \<open>norm_kwargs\<close> with \<open>None\<close> replaced by the empty dict, and
  \<open>xtra_args\<close>.\<close>

definition norm_kwargs_of :: "XceptionAligned_args \<Rightarrow> kwargs" where
  "norm_kwargs_of args = (case a_norm_kwargs args of None \<Rightarrow> [] | Some k \<Rightarrow> k)"

definition xtra_args_of :: "XceptionAligned_args \<Rightarrow> xtra_args" where
  "xtra_args_of args =
     \<lparr>act_layer = a_act_layer args, norm_layer = a_norm_layer args,
      norm_kwargs = Some (norm_kwargs_of args)\<rparr>"

text \<open>Lines 151 to 154: the stem.\<close>

definition stem_of :: "XceptionAligned_args \<Rightarrow> ConvBnAct list" where
  "stem_of args =
     [\<lparr>cba_in_channels = a_in_chans args, cba_out_channels = 32,
       cba_kernel_size = 3, cba_stride = 2, cba_norm_layer = a_norm_layer args,
       cba_norm_kwargs = norm_kwargs_of args, cba_act_layer = a_act_layer args\<rparr>,
      \<lparr>cba_in_channels = 32, cba_out_channels = 64,
       cba_kernel_size = 3, cba_stride = 1, cba_norm_layer = a_norm_layer args,
       cba_norm_kwargs = norm_kwargs_of args, cba_act_layer = a_act_layer args\<rparr>]"

text \<open>Line 147: \<^verbatim>\<open>assert output_stride in (8, 16, 32)\<close>.\<close>

definition assert_output_stride :: "int \<Rightarrow> error + unit" where
  "assert_output_stride output_stride =
     (if output_stride \<in> {8, 16, 32} then Inr () else Inl AssertionError)"

text \<open>\<^verbatim>\<open>XceptionAligned.__init__\<close>: the network, and the dicts as the build leaves them.
  With no block at all \<^verbatim>\<open>self.num_features\<close> is read at line 178 before it was ever
  assigned.\<close>

definition XceptionAligned_init ::
  "dicts \<Rightarrow> addr list \<Rightarrow> XceptionAligned_args \<Rightarrow> error + XceptionAligned \<times> dicts" where
  "XceptionAligned_init h block_cfg args =
     (case assert_output_stride (a_output_stride args) of
        Inl e \<Rightarrow> Inl e
      | Inr _ \<Rightarrow>
        (case blocks_loop (a_output_stride args) (xtra_args_of args) 0 block_cfg (h, init_state) of
           Inl e \<Rightarrow> Inl e
         | Inr (h', s) \<Rightarrow>
             (case st_num_features s of
                None \<Rightarrow> Inl AttributeError
              | Some nf \<Rightarrow>
                  Inr (\<lparr>num_classes = a_num_classes args, drop_rate = a_drop_rate args,
                        stem = stem_of args,
                        feature_info = st_feature_info s @
                          [\<lparr>num_chs = nf, reduction = curr_stride s,
                            module = ''blocks.'' @ str_int (int (length (st_blocks s)) - 1)\<rparr>],
                        blocks = st_blocks s, num_features = nf,
                        head = ClassifierHead_init nf (a_num_classes args)
                                 (a_global_pool args) (a_drop_rate args)\<rparr>,
                       h'))))"

text \<open>\<^verbatim>\<open>reset_classifier(num_classes, global_pool)\<close> assigns \<open>self.head\<close> and nothing else.\<close>

definition reset_classifier :: "XceptionAligned \<Rightarrow> int \<Rightarrow> string \<Rightarrow> XceptionAligned" where
  "reset_classifier self ncls pool =
     self\<lparr>head := ClassifierHead_init (num_features self) ncls pool (drop_rate self)\<rparr>"

definition get_classifier :: "XceptionAligned \<Rightarrow> fc_module" where
  "get_classifier self = ch_fc (head self)"

subsection \<open>Forward passes\<close>

text \<open>
  The framework's operators are parameters: a tensor is a value of \<open>'t\<close>, and each
  operator maps the layer it belongs to and its input to its output. An in-place
  activation is modelled by its result; the stack never applies one to the block's own
  input (its first module is \<open>act1\<close> with \<open>inplace=False\<close>, or \<open>conv1\<close>), so \<open>skip\<close>
  keeps the input.
\<close>

record 't prims =
  p_conv2d :: "Conv2d \<Rightarrow> 't \<Rightarrow> 't"
  p_norm :: "Norm \<Rightarrow> 't \<Rightarrow> 't"
  p_act :: "Act \<Rightarrow> 't \<Rightarrow> 't"
  p_convbnact :: "ConvBnAct \<Rightarrow> 't \<Rightarrow> 't"
  p_add :: "'t \<Rightarrow> 't \<Rightarrow> 't"
  p_pool :: "string \<Rightarrow> 't \<Rightarrow> 't"
  p_flatten :: "nat \<Rightarrow> 't \<Rightarrow> 't"
  p_dropout :: "real \<Rightarrow> bool \<Rightarrow> 't \<Rightarrow> 't"
  p_linear :: "int \<Rightarrow> int \<Rightarrow> bool \<Rightarrow> 't \<Rightarrow> 't"

definition opt_act :: "'t prims \<Rightarrow> Act option \<Rightarrow> 't \<Rightarrow> 't" where
  "opt_act P a x = (case a of None \<Rightarrow> x | Some l \<Rightarrow> p_act P l x)"

definition SeparableConv2d_forward :: "'t prims \<Rightarrow> SeparableConv2d \<Rightarrow> 't \<Rightarrow> 't" where
  "SeparableConv2d_forward P sc x =
     (let x1 = p_conv2d P (sc_conv_dw sc) x;
          x2 = p_norm P (sc_bn_dw sc) x1;
          x3 = opt_act P (sc_act_dw sc) x2;
          x4 = p_conv2d P (sc_conv_pw sc) x3;
          x5 = p_norm P (sc_bn_pw sc) x4
      in opt_act P (sc_act_pw sc) x5)"

definition stack_module_forward :: "'t prims \<Rightarrow> stack_module \<Rightarrow> 't \<Rightarrow> 't" where
  "stack_module_forward P m x =
     (case m of ActM a \<Rightarrow> p_act P a x | SepM sc \<Rightarrow> SeparableConv2d_forward P sc x)"

text \<open>\<^verbatim>\<open>nn.Sequential\<close>: the modules in the order they were added.\<close>

definition stack_forward :: "'t prims \<Rightarrow> stack \<Rightarrow> 't \<Rightarrow> 't" where
  "stack_forward P st x = fold (\<lambda>nm y. stack_module_forward P (snd nm) y) st x"

definition XceptionModule_forward :: "'t prims \<Rightarrow> XceptionModule \<Rightarrow> 't \<Rightarrow> 't" where
  "XceptionModule_forward P self x =
     (let skip = x;
          x1 = stack_forward P (xm_stack self) x;
          skip1 = (case xm_shortcut self of None \<Rightarrow> skip | Some sc \<Rightarrow> p_convbnact P sc skip)
      in if \<not> xm_no_skip self then p_add P x1 skip1 else x1)"

text \<open>\<open>training\<close> is the module's \<^verbatim>\<open>self.training\<close> flag; a float is true when it is
  not zero.\<close>

definition ClassifierHead_forward :: "'t prims \<Rightarrow> bool \<Rightarrow> ClassifierHead \<Rightarrow> 't \<Rightarrow> 't" where
  "ClassifierHead_forward P training self x =
     (let x1 = p_flatten P 1 (p_pool P (ch_global_pool self) x);
          x2 = (if ch_drop_rate self \<noteq> 0 then p_dropout P (ch_drop_rate self) training x1
                else x1)
      in case ch_fc self of
           Linear i n b \<Rightarrow> p_linear P i n b x2
         | Identity \<Rightarrow> x2)"

definition forward_features :: "'t prims \<Rightarrow> XceptionAligned \<Rightarrow> 't \<Rightarrow> 't" where
  "forward_features P self x =
     fold (\<lambda>nm y. XceptionModule_forward P (snd nm) y) (blocks self)
       (fold (p_convbnact P) (stem self) x)"

definition forward :: "'t prims \<Rightarrow> bool \<Rightarrow> XceptionAligned \<Rightarrow> 't \<Rightarrow> 't" where
  "forward P training self x =
     ClassifierHead_forward P training (head self) (forward_features P self x)"

subsection \<open>The preset Xception-41\<close>

text \<open>Lines 225 to 236: six dict objects, the middle-flow dict listed eight times. Line
  236 passes \<open>norm_kwargs\<close> itself, so a \<open>norm_kwargs\<close> among the caller's keywords is a
  second value for the same keyword, which \<^verbatim>\<open>dict(...)\<close> refuses with TypeError;
  \<open>a_norm_kwargs = None\<close> stands for a call that leaves the keyword out.\<close>

definition xception41_dicts :: dicts where
  "xception41_dicts =
     (\<lambda>_. block_dict 728 (ChsInt 728) 1)
       (0 := block_dict 64 (ChsInt 128) 2,
        1 := block_dict 128 (ChsInt 256) 2,
        2 := block_dict 256 (ChsInt 728) 2,
        3 := block_dict 728 (ChsInt 728) 1,
        4 := block_dict 728 (ChsSeq [728, 1024, 1024]) 2,
        5 := (block_dict 1024 (ChsSeq [1536, 1536, 2048]) 1)
               \<lparr>start_with_relu := False, no_skip := True\<rparr>)"

definition xception41_block_cfg :: "addr list" where
  "xception41_block_cfg = [0, 1, 2] @ replicate 8 3 @ [4, 5]"

definition xception41 :: "XceptionAligned_args \<Rightarrow> error + XceptionAligned \<times> dicts" where
  "xception41 args =
     (case a_norm_kwargs args of
        Some k \<Rightarrow> Inl TypeError
      | None \<Rightarrow>
          XceptionAligned_init xception41_dicts xception41_block_cfg
            (args\<lparr>a_norm_kwargs := Some [(''eps'', 0.001), (''momentum'', 0.1)]\<rparr>))"

subsection \<open>Reading a built network\<close>

text \<open>The three SeparableConv2d units of a stack, in order.\<close>

fun sep_convs :: "stack \<Rightarrow> SeparableConv2d list" where
  "sep_convs [] = []"
| "sep_convs ((n, SepM sc) # st) = sc # sep_convs st"
| "sep_convs ((n, ActM a) # st) = sep_convs st"

text \<open>Input channels, output channels and stride of a unit: the depthwise convolution
  takes the input and carries the stride, the pointwise convolution gives the output.\<close>

definition unit_shape :: "SeparableConv2d \<Rightarrow> int \<times> int \<times> int option" where
  "unit_shape sc =
     (cv_in_channels (sc_conv_dw sc), cv_out_channels (sc_conv_pw sc), cv_stride (sc_conv_dw sc))"

text \<open>Stride and dilation of the depthwise convolutions of a block.\<close>

definition unit_strides :: "XceptionModule \<Rightarrow> int option list" where
  "unit_strides m = map (\<lambda>sc. cv_stride (sc_conv_dw sc)) (sep_convs (xm_stack m))"

definition unit_dilations :: "XceptionModule \<Rightarrow> int option list" where
  "unit_dilations m = map (\<lambda>sc. cv_dilation (sc_conv_dw sc)) (sep_convs (xm_stack m))"

text \<open>The stride a block was built with: that of its last unit.\<close>

definition block_stride :: "XceptionModule \<Rightarrow> int" where
  "block_stride m =
     (case rev (unit_strides m) of Some s # _ \<Rightarrow> s | _ \<Rightarrow> 1)"

text \<open>An \<open>out_chs\<close> that passes the assertion of line 85.\<close>

definition out_chs_ok :: "out_chs_arg \<Rightarrow> bool" where
  "out_chs_ok oc = (case oc of ChsSeq cs \<Rightarrow> length cs = 3 | ChsInt c \<Rightarrow> True)"

text \<open>The dicts of a list whose stride the build absorbed: declared greater than 1 in the
  store \<open>h\<close> before, rewritten to 1 in the store \<open>h'\<close> after.\<close>

definition absorbed :: "dicts \<Rightarrow> dicts \<Rightarrow> addr list \<Rightarrow> addr set" where
  "absorbed h h' as = Set.filter (\<lambda>a. 1 < stride (h a) \<and> stride (h' a) = 1) (set as)"

subsection \<open>Forward passes as terms\<close>

text \<open>An instance of the operators that records which operator was applied to what: the
  output of a forward pass is the term of its operator applications.\<close>

datatype trace =
    Input
  | Conv2dT Conv2d trace
  | NormT Norm trace
  | ActT Act trace
  | ConvBnActT ConvBnAct trace
  | AddT trace trace
  | PoolT string trace
  | FlattenT nat trace
  | DropoutT real bool trace
  | LinearT int int bool trace

definition trace_prims :: "trace prims" where
  "trace_prims =
     \<lparr>p_conv2d = Conv2dT, p_norm = NormT, p_act = ActT, p_convbnact = ConvBnActT,
      p_add = AddT, p_pool = PoolT, p_flatten = FlattenT, p_dropout = DropoutT,
      p_linear = LinearT\<rparr>"

subsection \<open>Example inputs\<close>

definition default_xtra :: xtra_args where
  "default_xtra =
     \<lparr>act_layer = Some ''ReLU'', norm_layer = Some ''BatchNorm2d'', norm_kwargs = Some []\<rparr>"

text \<open>The exit-flow downsampling block of the presets (line 233).\<close>

definition exit_flow_dict :: BlockCfg where
  "exit_flow_dict = block_dict 728 (ChsSeq [728, 1024, 1024]) 2"

text \<open>A middle-flow block of the presets (line 231).\<close>

definition middle_flow_dict :: BlockCfg where
  "middle_flow_dict = block_dict 728 (ChsInt 728) 1"

text \<open>Two blocks whose channels do not fit: the first gives 128 channels, the second
  declares 999 input channels.\<close>

definition mismatch_dicts :: dicts where
  "mismatch_dicts =
     (\<lambda>_. block_dict 999 (ChsInt 256) 1)(0 := block_dict 64 (ChsInt 128) 2)"

text \<open>One block of stride 1.\<close>

definition single_dicts :: dicts where
  "single_dicts = (\<lambda>_. block_dict 64 (ChsInt 128) 1)"

text \<open>A block whose \<open>out_chs\<close> tuple has two entries.\<close>

definition short_tuple_dicts :: dicts where
  "short_tuple_dicts = (\<lambda>_. block_dict 64 (ChsSeq [128, 128]) 1)"

text \<open>The builder's state with the running stride at 16 and the running dilation at 2.\<close>

definition state_16_2 :: build_state where
  "state_16_2 = init_state\<lparr>curr_stride := 16, curr_dilation := 2\<rparr>"

text \<open>The loop of the Xception-41 build with \<open>output_stride=16\<close> over the first \<open>k\<close>
  blocks.\<close>

definition xception41_run16 :: "nat \<Rightarrow> error + dicts \<times> build_state" where
  "xception41_run16 k =
     blocks_loop 16 default_xtra 0 (take k xception41_block_cfg) (xception41_dicts, init_state)"

text \<open>The network of one block built with \<open>num_classes=0\<close>.\<close>

definition headless_net :: XceptionAligned where
  "headless_net =
     fst (projr (XceptionAligned_init single_dicts [0] (default_args\<lparr>a_num_classes := 0\<rparr>)))"

section \<open>Properties\<close>

subsection \<open>The planning step and the module constructor\<close>

lemma plan_block_cases:
  assumes "plan_block os cs cd b = (fe, cs', cd', b')"
  shows "(stride b \<le> 1 \<and> \<not> fe \<and> cs' = cs \<and> cd' = cd \<and> b' = b\<lparr>dilation := Some cd\<rparr>) \<or>
         (1 < stride b \<and> os < cs * stride b \<and> fe \<and> cs' = cs \<and> cd' = cd * stride b \<and>
            b' = b\<lparr>dilation := Some cd, stride := 1\<rparr>) \<or>
         (1 < stride b \<and> cs * stride b \<le> os \<and> fe \<and> cs' = cs * stride b \<and> cd' = cd \<and>
            b' = b\<lparr>dilation := Some cd\<rparr>)"
  using assms by (auto simp: plan_block_def Let_def split: if_splits)

lemma sep_convs_append: "sep_convs (xs @ ys) = sep_convs xs @ sep_convs ys"
  by (induction xs rule: sep_convs.induct) auto

lemma out_chs_ok_normalize:
  "out_chs_ok oc \<longleftrightarrow> (\<exists>c0 c1 c2. normalize_out_chs oc = Inr [c0, c1, c2])"
proof (cases oc)
  case (ChsInt c)
  then show ?thesis by (simp add: out_chs_ok_def normalize_out_chs_def)
next
  case (ChsSeq cs)
  have "length cs = 3 \<longleftrightarrow> (\<exists>c0 c1 c2. cs = [c0, c1, c2])"
    by (auto simp: length_Suc_conv numeral_3_eq_3)
  with ChsSeq show ?thesis by (auto simp: out_chs_ok_def normalize_out_chs_def)
qed

lemma str_nat_small [simp]:
  "str_nat (Suc 0) = ''1''" "str_nat (Suc (Suc 0)) = ''2''" "str_nat (Suc (Suc (Suc 0))) = ''3''"
  by (simp_all add: str_nat.simps)

lemma SeparableConv2d_init_Some:
  "SeparableConv2d_init ic oc k st d p al (Some nl) nk =
     Inr \<lparr>sc_kernel_size = k, sc_dilation = d,
          sc_conv_dw = \<lparr>cv_in_channels = ic, cv_out_channels = ic, cv_kernel_size = k,
                        cv_stride = Some st, cv_padding = Some p, cv_dilation = Some d,
                        cv_depthwise = Some True\<rparr>,
          sc_bn_dw = \<lparr>nm_cls = nl, nm_channels = ic,
                      nm_kwargs = (case nk of None \<Rightarrow> [] | Some k \<Rightarrow> k)\<rparr>,
          sc_act_dw = call_act_layer al,
          sc_conv_pw = \<lparr>cv_in_channels = ic, cv_out_channels = oc, cv_kernel_size = 1,
                        cv_stride = None, cv_padding = None, cv_dilation = None,
                        cv_depthwise = None\<rparr>,
          sc_bn_pw = \<lparr>nm_cls = nl, nm_channels = oc,
                      nm_kwargs = (case nk of None \<Rightarrow> [] | Some k \<Rightarrow> k)\<rparr>,
          sc_act_pw = call_act_layer al\<rparr>"
  by (simp add: SeparableConv2d_init_def call_norm_layer_def Let_def)

lemma SeparableConv2d_init_None:
  "SeparableConv2d_init ic oc k st d p al None nk = Inl TypeError"
  by (simp add: SeparableConv2d_init_def call_norm_layer_def Let_def)

lemma XceptionModule_init_None:
  assumes "normalize_out_chs (out_chs b) = Inr [c0, c1, c2]" and "norm_layer xtra = None"
  shows "XceptionModule_init b xtra = Inl TypeError"
  using assms by (simp add: XceptionModule_init_def Let_def SeparableConv2d_init_None)

lemma XceptionModule_init_Some:
  assumes "normalize_out_chs (out_chs b) = Inr [c0, c1, c2]" and "norm_layer xtra = Some nl"
  shows "\<exists>m. XceptionModule_init b xtra = Inr m \<and>
           xm_in_channels m = in_chs b \<and> xm_out_channels m = c2 \<and> xm_no_skip m = no_skip b \<and>
           xm_shortcut m =
             (if \<not> no_skip b \<and> (c2 \<noteq> in_chs b \<or> stride b \<noteq> 1)
              then Some \<lparr>cba_in_channels = in_chs b, cba_out_channels = c2,
                         cba_kernel_size = 1, cba_stride = stride b,
                         cba_norm_layer = norm_layer xtra,
                         cba_norm_kwargs = (case norm_kwargs xtra of None \<Rightarrow> [] | Some k \<Rightarrow> k),
                         cba_act_layer = None\<rparr>
              else None) \<and>
           map unit_shape (sep_convs (xm_stack m)) =
             [(in_chs b, c0, Some 1), (c0, c1, Some 1), (c1, c2, Some (stride b))] \<and>
           unit_strides m = [Some 1, Some 1, Some (stride b)] \<and>
           unit_dilations m = replicate 3 (Some (case dilation b of None \<Rightarrow> 1 | Some d \<Rightarrow> d)) \<and>
           map fst (xm_stack m) =
             (if start_with_relu b then [''act1'', ''conv1'', ''act2'', ''conv2'', ''act3'', ''conv3'']
              else [''conv1'', ''conv2'', ''conv3''])"
  using assms
  by (simp add: XceptionModule_init_def Let_def SeparableConv2d_init_Some unit_strides_def
      unit_dilations_def unit_shape_def numeral_3_eq_3)
lemma normalize_out_chs_Inr:
  "normalize_out_chs oc = Inr chs \<Longrightarrow> \<exists>c0 c1 c2. chs = [c0, c1, c2]"
  by (auto simp: normalize_out_chs_def length_Suc_conv numeral_3_eq_3
      split: out_chs_arg.splits if_splits)

lemma XceptionModule_init_Inr:
  assumes "XceptionModule_init b xtra = Inr m"
  shows "\<exists>c0 c1 c2 nl. normalize_out_chs (out_chs b) = Inr [c0, c1, c2] \<and> norm_layer xtra = Some nl"
proof (cases "normalize_out_chs (out_chs b)")
  case (Inl e)
  with assms show ?thesis by (simp add: XceptionModule_init_def Let_def)
next
  case (Inr chs)
  then obtain c0 c1 c2 where c: "normalize_out_chs (out_chs b) = Inr [c0, c1, c2]"
    using normalize_out_chs_Inr by blast
  show ?thesis
  proof (cases "norm_layer xtra")
    case None
    from XceptionModule_init_None[OF c None] assms show ?thesis by simp
  next
    case (Some nl)
    with c show ?thesis by blast
  qed
qed

lemma exit_flow_isr: "\<not> isl (XceptionModule_init exit_flow_dict default_xtra)"
  by code_simp

lemma exit_flow_built:
  "XceptionModule_init exit_flow_dict default_xtra =
     Inr (projr (XceptionModule_init exit_flow_dict default_xtra))"
  using exit_flow_isr by simp

subsection \<open>The block\<close>

text \<open>
  C8. In every block the three separable-convolution units are chained: the first maps
  \<open>in_chs\<close> to \<open>out_chs[0]\<close>, the second \<open>out_chs[0]\<close> to \<open>out_chs[1]\<close>, the third
  \<open>out_chs[1]\<close> to \<open>out_chs[2]\<close>; the first two have stride 1 and the third has the
  block's stride. They are registered as \<open>conv1\<close>, \<open>conv2\<close>, \<open>conv3\<close>, each after its
  \<open>act\<close> when the block starts with an activation.
\<close>

theorem xception_block_units:
  assumes "XceptionModule_init b xtra = Inr m"
  shows "\<exists>c0 c1 c2. normalize_out_chs (out_chs b) = Inr [c0, c1, c2] \<and>
           map unit_shape (sep_convs (xm_stack m)) =
             [(in_chs b, c0, Some 1), (c0, c1, Some 1), (c1, c2, Some (stride b))] \<and>
           map fst (xm_stack m) =
             (if start_with_relu b then [''act1'', ''conv1'', ''act2'', ''conv2'', ''act3'', ''conv3'']
              else [''conv1'', ''conv2'', ''conv3''])"
proof -
  from XceptionModule_init_Inr[OF assms] obtain c0 c1 c2 nl
    where c: "normalize_out_chs (out_chs b) = Inr [c0, c1, c2]" and nl: "norm_layer xtra = Some nl"
    by blast
  from XceptionModule_init_Some[OF c nl] assms c show ?thesis by auto
qed

theorem xception_block_units_witness:
  "\<not> isl (XceptionModule_init exit_flow_dict default_xtra) \<and>
   map unit_shape (sep_convs (xm_stack (projr (XceptionModule_init exit_flow_dict default_xtra)))) =
     [(728, 728, Some 1), (728, 1024, Some 1), (1024, 1024, Some 2)] \<and>
   map fst (xm_stack (projr (XceptionModule_init exit_flow_dict default_xtra))) =
     [''act1'', ''conv1'', ''act2'', ''conv2'', ''act3'', ''conv3'']"
  using xception_block_units[OF exit_flow_built] exit_flow_isr
  by (simp add: exit_flow_dict_def block_dict_def normalize_out_chs_def)

text \<open>
  C3. The shortcut policy of a block is three-way. With \<open>no_skip\<close> the output is the
  stack's output and nothing is added. Without \<open>no_skip\<close>, when the last of the three
  output channel counts differs from \<open>in_chs\<close> or the stride is not 1, a projection
  \<open>ConvBnAct\<close> (kernel size 1, the block's stride, no activation) is built and the output
  is the stack's output plus the projected input; otherwise no projection is built and
  the output is the stack's output plus the input itself. The block with \<open>in_chs=728\<close>,
  \<open>out_chs=(728, 1024, 1024)\<close>, \<open>stride=2\<close> builds the projection from 728 to 1024 channels
  with stride 2.
\<close>

theorem shortcut_policy:
  assumes "XceptionModule_init b xtra = Inr m"
  shows "(\<exists>c0 c1 c2. normalize_out_chs (out_chs b) = Inr [c0, c1, c2] \<and>
           xm_shortcut m =
             (if \<not> no_skip b \<and> (c2 \<noteq> in_chs b \<or> stride b \<noteq> 1)
              then Some \<lparr>cba_in_channels = in_chs b, cba_out_channels = c2,
                         cba_kernel_size = 1, cba_stride = stride b,
                         cba_norm_layer = norm_layer xtra,
                         cba_norm_kwargs = (case norm_kwargs xtra of None \<Rightarrow> [] | Some k \<Rightarrow> k),
                         cba_act_layer = None\<rparr>
              else None) \<and>
           XceptionModule_forward P m x =
             (if no_skip b then stack_forward P (xm_stack m) x
              else if c2 \<noteq> in_chs b \<or> stride b \<noteq> 1
              then p_add P (stack_forward P (xm_stack m) x)
                     (p_convbnact P
                        \<lparr>cba_in_channels = in_chs b, cba_out_channels = c2,
                         cba_kernel_size = 1, cba_stride = stride b,
                         cba_norm_layer = norm_layer xtra,
                         cba_norm_kwargs = (case norm_kwargs xtra of None \<Rightarrow> [] | Some k \<Rightarrow> k),
                         cba_act_layer = None\<rparr> x)
              else p_add P (stack_forward P (xm_stack m) x) x)) \<and>
         map_sum id xm_shortcut (XceptionModule_init exit_flow_dict default_xtra) =
           Inr (Some \<lparr>cba_in_channels = 728, cba_out_channels = 1024, cba_kernel_size = 1,
                      cba_stride = 2, cba_norm_layer = Some ''BatchNorm2d'',
                      cba_norm_kwargs = [], cba_act_layer = None\<rparr>)"
proof
  from XceptionModule_init_Inr[OF assms] obtain c0 c1 c2 nl
    where c: "normalize_out_chs (out_chs b) = Inr [c0, c1, c2]" and nl: "norm_layer xtra = Some nl"
    by blast
  from XceptionModule_init_Some[OF c nl] assms c
  show "\<exists>c0 c1 c2. normalize_out_chs (out_chs b) = Inr [c0, c1, c2] \<and>
           xm_shortcut m =
             (if \<not> no_skip b \<and> (c2 \<noteq> in_chs b \<or> stride b \<noteq> 1)
              then Some \<lparr>cba_in_channels = in_chs b, cba_out_channels = c2,
                         cba_kernel_size = 1, cba_stride = stride b,
                         cba_norm_layer = norm_layer xtra,
                         cba_norm_kwargs = (case norm_kwargs xtra of None \<Rightarrow> [] | Some k \<Rightarrow> k),
                         cba_act_layer = None\<rparr>
              else None) \<and>
           XceptionModule_forward P m x =
             (if no_skip b then stack_forward P (xm_stack m) x
              else if c2 \<noteq> in_chs b \<or> stride b \<noteq> 1
              then p_add P (stack_forward P (xm_stack m) x)
                     (p_convbnact P
                        \<lparr>cba_in_channels = in_chs b, cba_out_channels = c2,
                         cba_kernel_size = 1, cba_stride = stride b,
                         cba_norm_layer = norm_layer xtra,
                         cba_norm_kwargs = (case norm_kwargs xtra of None \<Rightarrow> [] | Some k \<Rightarrow> k),
                         cba_act_layer = None\<rparr> x)
              else p_add P (stack_forward P (xm_stack m) x) x)"
    by (auto simp: XceptionModule_forward_def Let_def)
  show "map_sum id xm_shortcut (XceptionModule_init exit_flow_dict default_xtra) =
           Inr (Some \<lparr>cba_in_channels = 728, cba_out_channels = 1024, cba_kernel_size = 1,
                      cba_stride = 2, cba_norm_layer = Some ''BatchNorm2d'',
                      cba_norm_kwargs = [], cba_act_layer = None\<rparr>)"
    by code_simp
qed

theorem shortcut_policy_witness:
  "\<not> isl (XceptionModule_init exit_flow_dict default_xtra) \<and>
   XceptionModule_forward trace_prims (projr (XceptionModule_init exit_flow_dict default_xtra)) Input =
     AddT (stack_forward trace_prims
             (xm_stack (projr (XceptionModule_init exit_flow_dict default_xtra))) Input)
       (ConvBnActT
          \<lparr>cba_in_channels = 728, cba_out_channels = 1024, cba_kernel_size = 1, cba_stride = 2,
           cba_norm_layer = Some ''BatchNorm2d'', cba_norm_kwargs = [], cba_act_layer = None\<rparr>
          Input)"
  using shortcut_policy[OF exit_flow_built, of trace_prims Input] exit_flow_isr
  by (simp add: exit_flow_dict_def block_dict_def normalize_out_chs_def default_xtra_def
      trace_prims_def)

subsection \<open>The builder's loop\<close>

lemma block_step_Inr:
  assumes "block_step os xtra i a (h, s) = Inr (h', s')"
  shows "\<exists>fe cs cd b m.
           plan_block os (curr_stride s) (curr_dilation s) (h a) = (fe, cs, cd, b) \<and>
           XceptionModule_init b xtra = Inr m \<and> h' = h(a := b) \<and>
           curr_stride s' = cs \<and> curr_dilation s' = cd \<and>
           st_blocks s' = st_blocks s @ [(str_nat i, m)] \<and>
           st_num_features s' = Some (xm_out_channels m) \<and>
           st_feature_info s' =
             (if fe then st_feature_info s @
                    [\<lparr>num_chs = xm_out_channels m, reduction = cs,
                      module = ''blocks.'' @ str_nat i @ ''.stack.act2''\<rparr>]
              else st_feature_info s)"
  using assms by (auto simp: block_step_def split: prod.splits sum.splits)

lemma block_step_cases:
  assumes "block_step os xtra i a (h, s) = Inr (h', s')"
  shows "\<exists>m. XceptionModule_init (h' a) xtra = Inr m \<and>
           st_blocks s' = st_blocks s @ [(str_nat i, m)] \<and>
           st_num_features s' = Some (xm_out_channels m) \<and>
           ((stride (h a) \<le> 1 \<and> h' = h(a := (h a)\<lparr>dilation := Some (curr_dilation s)\<rparr>) \<and>
             curr_stride s' = curr_stride s \<and> curr_dilation s' = curr_dilation s \<and>
             st_feature_info s' = st_feature_info s) \<or>
            (1 < stride (h a) \<and> os < curr_stride s * stride (h a) \<and>
             h' = h(a := (h a)\<lparr>dilation := Some (curr_dilation s), stride := 1\<rparr>) \<and>
             curr_stride s' = curr_stride s \<and>
             curr_dilation s' = curr_dilation s * stride (h a) \<and>
             st_feature_info s' = st_feature_info s @
               [\<lparr>num_chs = xm_out_channels m, reduction = curr_stride s,
                 module = ''blocks.'' @ str_nat i @ ''.stack.act2''\<rparr>]) \<or>
            (1 < stride (h a) \<and> curr_stride s * stride (h a) \<le> os \<and>
             h' = h(a := (h a)\<lparr>dilation := Some (curr_dilation s)\<rparr>) \<and>
             curr_stride s' = curr_stride s * stride (h a) \<and>
             curr_dilation s' = curr_dilation s \<and>
             st_feature_info s' = st_feature_info s @
               [\<lparr>num_chs = xm_out_channels m, reduction = curr_stride s * stride (h a),
                 module = ''blocks.'' @ str_nat i @ ''.stack.act2''\<rparr>]))"
proof -
  from block_step_Inr[OF assms] obtain fe cs cd b m where
    p: "plan_block os (curr_stride s) (curr_dilation s) (h a) = (fe, cs, cd, b)" and
    m: "XceptionModule_init b xtra = Inr m" and h': "h' = h(a := b)" and
    s': "curr_stride s' = cs" "curr_dilation s' = cd"
        "st_blocks s' = st_blocks s @ [(str_nat i, m)]"
        "st_num_features s' = Some (xm_out_channels m)"
        "st_feature_info s' =
             (if fe then st_feature_info s @
                    [\<lparr>num_chs = xm_out_channels m, reduction = cs,
                      module = ''blocks.'' @ str_nat i @ ''.stack.act2''\<rparr>]
              else st_feature_info s)"
    by blast
  from plan_block_cases[OF p] m h' s' show ?thesis
    by (intro exI[of _ m]) auto
qed

lemma blocks_loop_Cons_Inr:
  assumes "blocks_loop os xtra i (a # as) hs = Inr r"
  obtains h1 s1 where "block_step os xtra i a hs = Inr (h1, s1)"
    and "blocks_loop os xtra (Suc i) as (h1, s1) = Inr r"
  using assms by (cases "block_step os xtra i a hs") auto

lemma blocks_loop_append:
  "blocks_loop os xtra i (xs @ ys) hs =
     (case blocks_loop os xtra i xs hs of
        Inl e \<Rightarrow> Inl e
      | Inr hs1 \<Rightarrow> blocks_loop os xtra (i + length xs) ys hs1)"
  by (induction xs arbitrary: i hs) (auto split: sum.splits)

lemma blocks_loop_frame:
  assumes "blocks_loop os xtra i as (h, s) = Inr (h', s')" and "x \<notin> set as"
  shows "h' x = h x"
  using assms
proof (induction as arbitrary: i h s)
  case Nil
  then show ?case by simp
next
  case (Cons a as)
  from Cons.prems(1) obtain h1 s1 where
    st: "block_step os xtra i a (h, s) = Inr (h1, s1)" and
    rest: "blocks_loop os xtra (Suc i) as (h1, s1) = Inr (h', s')"
    by (rule blocks_loop_Cons_Inr)
  from Cons.IH[OF rest] Cons.prems(2) have "h' x = h1 x" by simp
  moreover from block_step_cases[OF st] Cons.prems(2) have "h1 x = h x" by auto
  ultimately show ?case by simp
qed

lemma blocks_loop_fields:
  assumes "blocks_loop os xtra i as (h, s) = Inr (h', s')"
  shows "in_chs (h' x) = in_chs (h x) \<and> out_chs (h' x) = out_chs (h x) \<and>
         pad_type (h' x) = pad_type (h x) \<and> start_with_relu (h' x) = start_with_relu (h x) \<and>
         no_skip (h' x) = no_skip (h x)"
  using assms
proof (induction as arbitrary: i h s)
  case Nil
  then show ?case by simp
next
  case (Cons a as)
  from Cons.prems(1) obtain h1 s1 where
    st: "block_step os xtra i a (h, s) = Inr (h1, s1)" and
    rest: "blocks_loop os xtra (Suc i) as (h1, s1) = Inr (h', s')"
    by (rule blocks_loop_Cons_Inr)
  from block_step_cases[OF st]
  have "in_chs (h1 x) = in_chs (h x) \<and> out_chs (h1 x) = out_chs (h x) \<and>
         pad_type (h1 x) = pad_type (h x) \<and> start_with_relu (h1 x) = start_with_relu (h x) \<and>
         no_skip (h1 x) = no_skip (h x)" by (cases "x = a") auto
  with Cons.IH[OF rest] show ?case by simp
qed

lemma block_step_stride:
  assumes "block_step os xtra i a (h, s) = Inr (h1, s1)"
  shows "stride (h1 x) = stride (h x) \<or> (x = a \<and> 1 < stride (h a) \<and> stride (h1 a) = 1)"
  using block_step_cases[OF assms] by (cases "x = a") auto

lemma blocks_loop_stride_le1:
  assumes "blocks_loop os xtra i as (h, s) = Inr (h', s')" and "stride (h x) \<le> 1"
  shows "stride (h' x) = stride (h x)"
  using assms
proof (induction as arbitrary: i h s)
  case Nil
  then show ?case by simp
next
  case (Cons a as)
  from Cons.prems(1) obtain h1 s1 where
    st: "block_step os xtra i a (h, s) = Inr (h1, s1)" and
    rest: "blocks_loop os xtra (Suc i) as (h1, s1) = Inr (h', s')"
    by (rule blocks_loop_Cons_Inr)
  from block_step_stride[OF st, of x] Cons.prems(2) have eq: "stride (h1 x) = stride (h x)" by auto
  with Cons.IH[OF rest] Cons.prems(2) show ?case by simp
qed

lemma block_step_mono:
  assumes "block_step os xtra i a (h, s) = Inr (h1, s1)"
    and "0 < curr_stride s" and "0 < curr_dilation s"
  shows "curr_stride s \<le> curr_stride s1 \<and> curr_dilation s \<le> curr_dilation s1 \<and>
         (curr_stride s \<le> os \<longrightarrow> curr_stride s1 \<le> os)"
proof -
  have m: "c \<le> c * k" if "0 < c" "1 < k" for c k :: int
    using that by (simp add: mult_le_cancel_left1)
  from block_step_cases[OF assms(1)] assms(2,3) show ?thesis
    by (auto intro: m)
qed

lemma blocks_loop_mono:
  assumes "blocks_loop os xtra i as (h, s) = Inr (h', s')"
    and "0 < curr_stride s" and "0 < curr_dilation s"
  shows "curr_stride s \<le> curr_stride s' \<and> curr_dilation s \<le> curr_dilation s' \<and>
         (curr_stride s \<le> os \<longrightarrow> curr_stride s' \<le> os)"
  using assms
proof (induction as arbitrary: i h s)
  case Nil
  then show ?case by simp
next
  case (Cons a as)
  from Cons.prems(1) obtain h1 s1 where
    st: "block_step os xtra i a (h, s) = Inr (h1, s1)" and
    rest: "blocks_loop os xtra (Suc i) as (h1, s1) = Inr (h', s')"
    by (rule blocks_loop_Cons_Inr)
  note m1 = block_step_mono[OF st Cons.prems(2,3)]
  then have pos: "0 < curr_stride s1" "0 < curr_dilation s1"
    using Cons.prems(2,3) by auto
  from Cons.IH[OF rest pos] m1 show ?case by auto
qed

lemma finite_absorbed [simp]: "finite (absorbed h h' as)"
  by (simp add: absorbed_def)

lemma absorbed_subset: "x \<in> absorbed h h' as \<Longrightarrow> x \<in> set as \<and> 1 < stride (h x) \<and> stride (h' x) = 1"
  by (simp add: absorbed_def)

lemma absorbed_step:
  assumes st: "block_step os xtra i a (h, s) = Inr (h1, s1)"
    and rest: "blocks_loop os xtra (Suc i) as (h1, s1) = Inr (h', s')"
  shows "absorbed h h' (a # as) =
           (if 1 < stride (h a) \<and> os < curr_stride s * stride (h a)
            then insert a (absorbed h1 h' as) else absorbed h1 h' as)"
    and "a \<notin> absorbed h1 h' as \<or> \<not> (1 < stride (h a) \<and> os < curr_stride s * stride (h a))"
    and "x \<in> absorbed h1 h' as \<Longrightarrow> stride (h1 x) = stride (h x)"
proof -
  note c = block_step_cases[OF st]
  have other: "h1 y = h y" if "y \<noteq> a" for y
    using c that by auto
  show "a \<notin> absorbed h1 h' as \<or> \<not> (1 < stride (h a) \<and> os < curr_stride s * stride (h a))"
    using c by (auto simp: absorbed_def)
  show "stride (h1 x) = stride (h x)" if "x \<in> absorbed h1 h' as"
    using c that other[of x] by (cases "x = a") (auto simp: absorbed_def)
  show "absorbed h h' (a # as) =
           (if 1 < stride (h a) \<and> os < curr_stride s * stride (h a)
            then insert a (absorbed h1 h' as) else absorbed h1 h' as)"
  proof (cases "1 < stride (h a) \<and> os < curr_stride s * stride (h a)")
    case True
    with c have h1a: "stride (h1 a) = 1" by auto
    from blocks_loop_stride_le1[OF rest, of a] h1a have "stride (h' a) = 1" by simp
    have "y \<in> absorbed h h' (a # as) \<longleftrightarrow> y \<in> insert a (absorbed h1 h' as)" for y
      using True h1a other[of y] \<open>stride (h' a) = 1\<close>
      by (cases "y = a") (auto simp: absorbed_def)
    with True show ?thesis by auto
  next
    case False
    with c have same: "stride (h1 y) = stride (h y)" for y
      by (cases "y = a") auto
    have "a \<notin> absorbed h h' (a # as)" if "a \<notin> set as"
    proof (cases "1 < stride (h a)")
      case True
      from blocks_loop_frame[OF rest that] same[of a] True
      show ?thesis by (simp add: absorbed_def)
    next
      case False
      then show ?thesis by (simp add: absorbed_def)
    qed
    then have "y \<in> absorbed h h' (a # as) \<longleftrightarrow> y \<in> absorbed h1 h' as" for y
      using same[of y] by (cases "y = a") (auto simp: absorbed_def)
    with False show ?thesis by auto
  qed
qed

lemma blocks_loop_dilation:
  assumes "blocks_loop os xtra i as (h, s) = Inr (h', s')"
  shows "curr_dilation s' = curr_dilation s * (\<Prod>a\<in>absorbed h h' as. stride (h a))"
  using assms
proof (induction as arbitrary: i h s)
  case Nil
  then show ?case by (simp add: absorbed_def)
next
  case (Cons a as)
  from Cons.prems(1) obtain h1 s1 where
    st: "block_step os xtra i a (h, s) = Inr (h1, s1)" and
    rest: "blocks_loop os xtra (Suc i) as (h1, s1) = Inr (h', s')"
    by (rule blocks_loop_Cons_Inr)
  note ab = absorbed_step[OF st rest]
  have ih: "curr_dilation s' = curr_dilation s1 * (\<Prod>x\<in>absorbed h1 h' as. stride (h x))"
    using Cons.IH[OF rest] ab(3) by (simp cong: prod.cong)
  show ?case
  proof (cases "1 < stride (h a) \<and> os < curr_stride s * stride (h a)")
    case True
    with block_step_cases[OF st] have "curr_dilation s1 = curr_dilation s * stride (h a)" by auto
    moreover from True ab(2) have "a \<notin> absorbed h1 h' as" by simp
    ultimately show ?thesis using ih ab(1) True by simp
  next
    case False
    with block_step_cases[OF st] have "curr_dilation s1 = curr_dilation s" by auto
    with ih ab(1) False show ?thesis by simp
  qed
qed

lemma block_step_built:
  assumes "block_step os xtra i a (h, s) = Inr (h1, s1)"
  shows "\<exists>m. st_blocks s1 = st_blocks s @ [(str_nat i, m)] \<and>
           st_num_features s1 = Some (xm_out_channels m) \<and>
           xm_in_channels m = in_chs (h a) \<and>
           block_stride m = stride (h1 a) \<and>
           unit_strides m = [Some 1, Some 1, Some (stride (h1 a))] \<and>
           unit_dilations m = replicate 3 (Some (curr_dilation s)) \<and>
           dilation (h1 a) = Some (curr_dilation s)"
proof -
  from block_step_cases[OF assms] obtain m where
    m: "XceptionModule_init (h1 a) xtra = Inr m" and
    b: "st_blocks s1 = st_blocks s @ [(str_nat i, m)]" "st_num_features s1 = Some (xm_out_channels m)" and
    d: "dilation (h1 a) = Some (curr_dilation s)" "in_chs (h1 a) = in_chs (h a)"
    by auto
  from XceptionModule_init_Inr[OF m] obtain c0 c1 c2 nl
    where c: "normalize_out_chs (out_chs (h1 a)) = Inr [c0, c1, c2]" and nl: "norm_layer xtra = Some nl"
    by blast
  from XceptionModule_init_Some[OF c nl] m b d show ?thesis
    by (auto simp: block_stride_def)
qed

lemma block_step_feature:
  assumes "block_step os xtra i a (h, s) = Inr (h1, s1)"
  shows "\<exists>m e. st_blocks s1 = st_blocks s @ [(str_nat i, m)] \<and>
           st_num_features s1 = Some (xm_out_channels m) \<and>
           xm_in_channels m = in_chs (h a) \<and>
           st_feature_info s1 = st_feature_info s @ (if 1 < stride (h a) then [e] else []) \<and>
           take 7 (module e) = ''blocks.'' \<and>
           block_stride m = stride (h1 a) \<and>
           (1 < stride (h1 a) \<longleftrightarrow>
              1 < stride (h a) \<and> \<not> os < curr_stride s * stride (h a))"
proof -
  from block_step_built[OF assms] obtain m where
    m: "st_blocks s1 = st_blocks s @ [(str_nat i, m)]"
       "st_num_features s1 = Some (xm_out_channels m)"
       "xm_in_channels m = in_chs (h a)"
       "block_stride m = stride (h1 a)" by blast
  from block_step_Inr[OF assms] m(1) obtain fe cs where
    fi: "st_feature_info s1 =
             (if fe then st_feature_info s @
                    [\<lparr>num_chs = xm_out_channels m, reduction = cs,
                      module = ''blocks.'' @ str_nat i @ ''.stack.act2''\<rparr>]
              else st_feature_info s)" by auto
  let ?e = "\<lparr>num_chs = xm_out_channels m, reduction = cs,
             module = ''blocks.'' @ str_nat i @ ''.stack.act2''\<rparr>"
  from block_step_cases[OF assms] fi
  have "st_feature_info s1 = st_feature_info s @ (if 1 < stride (h a) then [?e] else [])"
    by (cases fe) auto
  moreover have "take 7 (module ?e) = ''blocks.''" by simp
  moreover from block_step_cases[OF assms]
  have "1 < stride (h1 a) \<longleftrightarrow> 1 < stride (h a) \<and> \<not> os < curr_stride s * stride (h a)"
    by auto
  ultimately show ?thesis using m by blast
qed

lemma blocks_loop_result:
  assumes "blocks_loop os xtra i as (h, s) = Inr (h', s')"
  shows "\<exists>nb nf. st_blocks s' = st_blocks s @ nb \<and>
           st_feature_info s' = st_feature_info s @ nf \<and>
           map (\<lambda>nm. xm_in_channels (snd nm)) nb = map (\<lambda>a. in_chs (h a)) as \<and>
           map fst nb = map str_nat [i ..< i + length as] \<and>
           list_all (\<lambda>e. take 7 (module e) = ''blocks.'') nf \<and>
           length nf = length (filter (\<lambda>nm. 1 < block_stride (snd nm)) nb) + card (absorbed h h' as) \<and>
           (as \<noteq> [] \<longrightarrow> st_num_features s' = Some (xm_out_channels (snd (last nb)))) \<and>
           (as = [] \<longrightarrow> s' = s)"
  using assms
proof (induction as arbitrary: i h s)
  case Nil
  then show ?case by (simp add: absorbed_def)
next
  case (Cons a as)
  from Cons.prems(1) obtain h1 s1 where
    st: "block_step os xtra i a (h, s) = Inr (h1, s1)" and
    rest: "blocks_loop os xtra (Suc i) as (h1, s1) = Inr (h', s')"
    by (rule blocks_loop_Cons_Inr)
  note ab = absorbed_step[OF st rest]
  from block_step_cases[OF st] have ic: "in_chs (h1 x) = in_chs (h x)" for x
    by (cases "x = a") auto
  from block_step_feature[OF st] obtain m e where
    m: "st_blocks s1 = st_blocks s @ [(str_nat i, m)]"
       "st_num_features s1 = Some (xm_out_channels m)"
       "xm_in_channels m = in_chs (h a)"
       "st_feature_info s1 = st_feature_info s @ (if 1 < stride (h a) then [e] else [])"
       "take 7 (module e) = ''blocks.''"
       "block_stride m = stride (h1 a)"
       "1 < stride (h1 a) \<longleftrightarrow> 1 < stride (h a) \<and> \<not> os < curr_stride s * stride (h a)"
    by blast
  from Cons.IH[OF rest] obtain nb nf where
    r: "st_blocks s' = st_blocks s1 @ nb"
       "st_feature_info s' = st_feature_info s1 @ nf"
       "map (\<lambda>nm. xm_in_channels (snd nm)) nb = map (\<lambda>a. in_chs (h1 a)) as"
       "map fst nb = map str_nat [Suc i ..< Suc i + length as]"
       "list_all (\<lambda>e. take 7 (module e) = ''blocks.'') nf"
       "length nf = length (filter (\<lambda>nm. 1 < block_stride (snd nm)) nb) + card (absorbed h1 h' as)"
       "as \<noteq> [] \<longrightarrow> st_num_features s' = Some (xm_out_channels (snd (last nb)))"
       "as = [] \<longrightarrow> s' = s1"
    by blast
  let ?nb = "(str_nat i, m) # nb"
  let ?nf = "(if 1 < stride (h a) then [e] else []) @ nf"
  have card: "card (absorbed h h' (a # as)) =
      (if 1 < stride (h a) \<and> os < curr_stride s * stride (h a) then 1 else 0) + card (absorbed h1 h' as)"
    using ab(1,2) by auto
  have 1: "st_blocks s' = st_blocks s @ ?nb" using r(1) m(1) by simp
  have 2: "st_feature_info s' = st_feature_info s @ ?nf" using r(2) m(4) by simp
  have 3: "map (\<lambda>nm. xm_in_channels (snd nm)) ?nb = map (\<lambda>a. in_chs (h a)) (a # as)"
    using r(3) m(3) ic by simp
  have 4: "map fst ?nb = map str_nat [i ..< i + length (a # as)]"
    using r(4) by (simp add: upt_conv_Cons del: upt_Suc)
  have 5: "list_all (\<lambda>e. take 7 (module e) = ''blocks.'') ?nf"
    using r(5) m(5) by simp
  have 6: "length ?nf = length (filter (\<lambda>nm. 1 < block_stride (snd nm)) ?nb) + card (absorbed h h' (a # as))"
    using r(6) m(6,7) card by auto
  have "length (map fst nb) = length (map str_nat [Suc i ..< Suc i + length as])"
    by (simp only: r(4))
  then have "length nb = length as" by (simp del: upt_Suc)
  then have len: "nb = [] \<longleftrightarrow> as = []" by auto
  have 7: "st_num_features s' = Some (xm_out_channels (snd (last ?nb)))"
    using r(7,8) m(2) len by (cases "as = []") auto
  from 1 2 3 4 5 6 7 show ?case by blast
qed

subsection \<open>The constructor of the network\<close>

lemma XceptionAligned_init_Inr:
  assumes "XceptionAligned_init h cfg args = Inr (net, h')"
  shows "\<exists>s. a_output_stride args \<in> {8, 16, 32} \<and>
           blocks_loop (a_output_stride args) (xtra_args_of args) 0 cfg (h, init_state) = Inr (h', s) \<and>
           cfg \<noteq> [] \<and>
           st_num_features s = Some (num_features net) \<and>
           blocks net = st_blocks s \<and>
           feature_info net = st_feature_info s @
             [\<lparr>num_chs = num_features net, reduction = curr_stride s,
               module = ''blocks.'' @ str_int (int (length (st_blocks s)) - 1)\<rparr>] \<and>
           stem net = stem_of args \<and> num_classes net = a_num_classes args \<and>
           drop_rate net = a_drop_rate args \<and>
           head net = ClassifierHead_init (num_features net) (a_num_classes args)
                        (a_global_pool args) (a_drop_rate args)"
proof -
  from assms have os: "a_output_stride args \<in> {8, 16, 32}"
    by (auto simp: XceptionAligned_init_def assert_output_stride_def split: if_splits)
  with assms obtain s where
    run: "blocks_loop (a_output_stride args) (xtra_args_of args) 0 cfg (h, init_state) = Inr (h', s)"
    and nf: "st_num_features s \<noteq> None"
    by (auto simp: XceptionAligned_init_def assert_output_stride_def
        split: if_splits sum.splits option.splits)
  from blocks_loop_result[OF run] nf have ne: "cfg \<noteq> []"
    by (auto simp: init_state_def)
  from assms os run nf ne show ?thesis
    by (intro exI[of _ s])
      (auto simp: XceptionAligned_init_def assert_output_stride_def split: option.splits)
qed

lemma out_chs_ok_iff: "out_chs_ok oc \<longleftrightarrow> (\<forall>cs. oc = ChsSeq cs \<longrightarrow> length cs = 3)"
  by (cases oc) (auto simp: out_chs_ok_def)

lemma XceptionModule_init_bad_tuple:
  assumes "out_chs b = ChsSeq cs" and "length cs \<noteq> 3"
  shows "XceptionModule_init b xtra = Inl AssertionError"
  using assms by (simp add: XceptionModule_init_def normalize_out_chs_def Let_def)

lemma block_step_bad_tuple:
  assumes "out_chs (h a) = ChsSeq cs" and "length cs \<noteq> 3"
  shows "block_step os xtra i a (h, s) = Inl AssertionError"
proof -
  obtain fe cs' cd b where
    p: "plan_block os (curr_stride s) (curr_dilation s) (h a) = (fe, cs', cd, b)"
    by (metis prod_cases4)
  from plan_block_cases[OF p] have "out_chs b = out_chs (h a)" by auto
  with assms have "XceptionModule_init b xtra = Inl AssertionError"
    by (simp add: XceptionModule_init_bad_tuple)
  with p show ?thesis by (simp add: block_step_def)
qed

lemma blocks_loop_Inr_ok:
  assumes "blocks_loop os xtra i as (h, s) = Inr (h', s')"
  shows "\<forall>a\<in>set as. out_chs_ok (out_chs (h a))"
  using assms
proof (induction as arbitrary: i h s)
  case Nil
  then show ?case by simp
next
  case (Cons a as)
  from Cons.prems(1) obtain h1 s1 where
    st: "block_step os xtra i a (h, s) = Inr (h1, s1)" and
    rest: "blocks_loop os xtra (Suc i) as (h1, s1) = Inr (h', s')"
    by (rule blocks_loop_Cons_Inr)
  from block_step_cases[OF st] have oc: "out_chs (h1 x) = out_chs (h x)" for x
    by (cases "x = a") auto
  from block_step_cases[OF st] obtain m where "XceptionModule_init (h1 a) xtra = Inr m"
    by blast
  from XceptionModule_init_Inr[OF this] have "out_chs_ok (out_chs (h1 a))"
    by (auto simp: out_chs_ok_normalize)
  with Cons.IH[OF rest] oc show ?case by simp
qed

lemma single_loop_built:
  "blocks_loop (a_output_stride default_args) (xtra_args_of default_args) 0 (take 1 [0])
     (single_dicts, init_state) =
   Inr (fst (projr (blocks_loop (a_output_stride default_args) (xtra_args_of default_args) 0
                      (take 1 [0]) (single_dicts, init_state))),
        snd (projr (blocks_loop (a_output_stride default_args) (xtra_args_of default_args) 0
                      (take 1 [0]) (single_dicts, init_state))))"
proof -
  have "\<not> isl (blocks_loop (a_output_stride default_args) (xtra_args_of default_args) 0
                 (take 1 [0]) (single_dicts, init_state))"
    by code_simp
  then show ?thesis by simp
qed

text \<open>
  C5. Construction raises AssertionError when \<open>output_stride\<close> is not 8, 16 or 32.
  When the \<open>out_chs\<close> of some block of the list is a list or tuple whose length is not 3,
  construction fails; the constructor of a block with such an \<open>out_chs\<close>, and the loop
  iteration that builds it, raise AssertionError. With \<open>output_stride\<close> in 8, 16, 32 and
  every tuple of length 3, neither assertion fails: the check of \<open>output_stride\<close> returns,
  and the \<open>out_chs\<close> of every dict of the list passes the check of lines 84 to 87, as the
  list is given and as the build finds it after any number of blocks.
\<close>

theorem construction_assertions:
  "(a_output_stride args \<notin> {8, 16, 32} \<longrightarrow>
      XceptionAligned_init h cfg args = Inl AssertionError) \<and>
   ((\<exists>a\<in>set cfg. \<exists>cs. out_chs (h a) = ChsSeq cs \<and> length cs \<noteq> 3) \<longrightarrow>
      isl (XceptionAligned_init h cfg args)) \<and>
   ((\<exists>cs. out_chs (h x) = ChsSeq cs \<and> length cs \<noteq> 3) \<longrightarrow>
      XceptionModule_init (h x) xtra = Inl AssertionError \<and>
      block_step os xtra i x (h, s) = Inl AssertionError) \<and>
   (a_output_stride args \<in> {8, 16, 32} \<and>
    (\<forall>a\<in>set cfg. \<forall>cs. out_chs (h a) = ChsSeq cs \<longrightarrow> length cs = 3) \<longrightarrow>
      assert_output_stride (a_output_stride args) = Inr () \<and>
      (\<forall>a\<in>set cfg. \<exists>c0 c1 c2. normalize_out_chs (out_chs (h a)) = Inr [c0, c1, c2]) \<and>
      (\<forall>k hk sk.
          blocks_loop (a_output_stride args) (xtra_args_of args) 0 (take k cfg) (h, init_state) =
            Inr (hk, sk) \<longrightarrow>
          (\<forall>a\<in>set cfg. \<exists>c0 c1 c2. normalize_out_chs (out_chs (hk a)) = Inr [c0, c1, c2])))"
proof -
  have 1: "XceptionAligned_init h cfg args = Inl AssertionError"
    if "a_output_stride args \<notin> {8, 16, 32}"
    using that by (simp add: XceptionAligned_init_def assert_output_stride_def)
  have 2: "isl (XceptionAligned_init h cfg args)"
    if "\<exists>a\<in>set cfg. \<exists>cs. out_chs (h a) = ChsSeq cs \<and> length cs \<noteq> 3"
  proof (rule ccontr)
    assume "\<not> isl (XceptionAligned_init h cfg args)"
    then obtain net h' where "XceptionAligned_init h cfg args = Inr (net, h')"
      by (cases "XceptionAligned_init h cfg args") auto
    from XceptionAligned_init_Inr[OF this] obtain s' where
      "blocks_loop (a_output_stride args) (xtra_args_of args) 0 cfg (h, init_state) = Inr (h', s')"
      by blast
    from blocks_loop_Inr_ok[OF this] that show False
      by (auto simp: out_chs_ok_iff)
  qed
  have 3: "XceptionModule_init (h x) xtra = Inl AssertionError \<and>
      block_step os xtra i x (h, s) = Inl AssertionError"
    if "\<exists>cs. out_chs (h x) = ChsSeq cs \<and> length cs \<noteq> 3"
    using that by (auto simp: XceptionModule_init_bad_tuple block_step_bad_tuple)
  have 4: "assert_output_stride (a_output_stride args) = Inr () \<and>
      (\<forall>a\<in>set cfg. \<exists>c0 c1 c2. normalize_out_chs (out_chs (h a)) = Inr [c0, c1, c2]) \<and>
      (\<forall>k hk sk.
          blocks_loop (a_output_stride args) (xtra_args_of args) 0 (take k cfg) (h, init_state) =
            Inr (hk, sk) \<longrightarrow>
          (\<forall>a\<in>set cfg. \<exists>c0 c1 c2. normalize_out_chs (out_chs (hk a)) = Inr [c0, c1, c2]))"
    if a: "a_output_stride args \<in> {8, 16, 32} \<and>
      (\<forall>a\<in>set cfg. \<forall>cs. out_chs (h a) = ChsSeq cs \<longrightarrow> length cs = 3)"
  proof -
    from a have os: "assert_output_stride (a_output_stride args) = Inr ()"
      by (simp add: assert_output_stride_def)
    from a have ok: "\<forall>a\<in>set cfg. \<exists>c0 c1 c2. normalize_out_chs (out_chs (h a)) = Inr [c0, c1, c2]"
      by (simp add: out_chs_ok_iff[symmetric] out_chs_ok_normalize[symmetric])
    have "\<forall>a\<in>set cfg. \<exists>c0 c1 c2. normalize_out_chs (out_chs (hk a)) = Inr [c0, c1, c2]"
      if "blocks_loop (a_output_stride args) (xtra_args_of args) 0 (take k cfg) (h, init_state) =
            Inr (hk, sk)" for k hk sk
      using blocks_loop_fields[OF that] ok by simp
    with os ok show ?thesis by blast
  qed
  from 1 2 3 4 show ?thesis by blast
qed

theorem construction_assertions_witness:
  "XceptionAligned_init single_dicts [0] (default_args\<lparr>a_output_stride := 24\<rparr>) = Inl AssertionError \<and>
   isl (XceptionAligned_init short_tuple_dicts [0] default_args) \<and>
   XceptionModule_init (short_tuple_dicts 0) default_xtra = Inl AssertionError \<and>
   block_step 32 default_xtra 0 0 (short_tuple_dicts, init_state) = Inl AssertionError \<and>
   assert_output_stride (a_output_stride default_args) = Inr () \<and>
   normalize_out_chs (out_chs (single_dicts 0)) = Inr [128, 128, 128] \<and>
   normalize_out_chs
     (out_chs (fst (projr (blocks_loop (a_output_stride default_args) (xtra_args_of default_args) 0
                             (take 1 [0]) (single_dicts, init_state))) 0)) = Inr [128, 128, 128]"
proof -
  have 1: "a_output_stride (default_args\<lparr>a_output_stride := 24\<rparr>) \<notin> {8, 16, 32}" by simp
  have 2: "\<exists>a\<in>set [0]. \<exists>cs. out_chs (short_tuple_dicts a) = ChsSeq cs \<and> length cs \<noteq> 3"
    by (simp add: short_tuple_dicts_def block_dict_def)
  have 3: "\<exists>cs. out_chs (short_tuple_dicts 0) = ChsSeq cs \<and> length cs \<noteq> 3"
    by (simp add: short_tuple_dicts_def block_dict_def)
  have 4: "a_output_stride default_args \<in> {8, 16, 32} \<and>
    (\<forall>a\<in>set [0]. \<forall>cs. out_chs (single_dicts a) = ChsSeq cs \<longrightarrow> length cs = 3)"
    by (simp add: default_args_def single_dicts_def block_dict_def)
  from construction_assertions[of "default_args\<lparr>a_output_stride := 24\<rparr>" single_dicts "[0]"] 1
  have a: "XceptionAligned_init single_dicts [0] (default_args\<lparr>a_output_stride := 24\<rparr>) = Inl AssertionError"
    by blast
  note t = construction_assertions[where args = default_args and h = short_tuple_dicts
      and cfg = "[0]" and x = 0 and xtra = default_xtra and os = 32 and i = 0 and s = init_state]
  from t 2 have b: "isl (XceptionAligned_init short_tuple_dicts [0] default_args)"
    by blast
  from t 3 have c: "XceptionModule_init (short_tuple_dicts 0) default_xtra = Inl AssertionError"
    "block_step 32 default_xtra 0 0 (short_tuple_dicts, init_state) = Inl AssertionError"
    by blast+
  note u = construction_assertions[where args = default_args and h = single_dicts and cfg = "[0]"]
  from u 4 have d: "assert_output_stride (a_output_stride default_args) = Inr ()"
    and e: "\<forall>a\<in>set [0]. \<exists>c0 c1 c2. normalize_out_chs (out_chs (single_dicts a)) = Inr [c0, c1, c2]"
    and f: "\<forall>k hk sk.
          blocks_loop (a_output_stride default_args) (xtra_args_of default_args) 0 (take k [0])
            (single_dicts, init_state) = Inr (hk, sk) \<longrightarrow>
          (\<forall>a\<in>set [0]. \<exists>c0 c1 c2. normalize_out_chs (out_chs (hk a)) = Inr [c0, c1, c2])"
    by blast+
  from e have e': "normalize_out_chs (out_chs (single_dicts 0)) = Inr [128, 128, 128]"
    by (simp add: single_dicts_def block_dict_def normalize_out_chs_def)
  from f[rule_format, OF single_loop_built, of 0]
  obtain c0 c1 c2 where g:
    "normalize_out_chs
       (out_chs (fst (projr (blocks_loop (a_output_stride default_args) (xtra_args_of default_args) 0
                               (take 1 [0]) (single_dicts, init_state))) 0)) = Inr [c0, c1, c2]"
    by auto
  from blocks_loop_fields[OF single_loop_built, of 0]
  have "out_chs (fst (projr (blocks_loop (a_output_stride default_args) (xtra_args_of default_args) 0
                               (take 1 [0]) (single_dicts, init_state))) 0) = ChsInt 128"
    by (simp add: single_dicts_def block_dict_def)
  with g have g': "normalize_out_chs
       (out_chs (fst (projr (blocks_loop (a_output_stride default_args) (xtra_args_of default_args) 0
                               (take 1 [0]) (single_dicts, init_state))) 0)) = Inr [128, 128, 128]"
    by (simp add: normalize_out_chs_def)
  from a b c d e' g' show ?thesis by blast
qed

lemma mismatch_built:
  "XceptionAligned_init mismatch_dicts [0, 1] default_args =
     Inr (fst (projr (XceptionAligned_init mismatch_dicts [0, 1] default_args)),
          snd (projr (XceptionAligned_init mismatch_dicts [0, 1] default_args)))"
proof -
  have "\<not> isl (XceptionAligned_init mismatch_dicts [0, 1] default_args)" by code_simp
  then show ?thesis by simp
qed

text \<open>
  C6, as the code has it. Construction never compares the \<open>in_chs\<close> a block declares with
  the output channels of the block before it, so a mismatch raises nothing at
  construction: the list whose second block declares 999 input channels after a block
  that gives 128 is built, each block with the channels its dict declares. The builder
  corrects nothing: whenever construction returns, every block is built with the
  \<open>in_chs\<close> its dict declares, and no dict has its \<open>in_chs\<close> rewritten.
\<close>

theorem no_channel_check:
  assumes "XceptionAligned_init h cfg args = Inr (net, h')"
  shows "map (\<lambda>nm. xm_in_channels (snd nm)) (blocks net) = map (\<lambda>a. in_chs (h a)) cfg \<and>
         (\<forall>a. in_chs (h' a) = in_chs (h a)) \<and>
         map_sum id
           (\<lambda>r. map (\<lambda>nm. (xm_in_channels (snd nm), xm_out_channels (snd nm))) (blocks (fst r)))
           (XceptionAligned_init mismatch_dicts [0, 1] default_args) =
         Inr [(64, 128), (999, 256)]"
proof (intro conjI allI)
  from XceptionAligned_init_Inr[OF assms] obtain s where
    run: "blocks_loop (a_output_stride args) (xtra_args_of args) 0 cfg (h, init_state) = Inr (h', s)"
    and b: "blocks net = st_blocks s" by blast
  from blocks_loop_result[OF run] b
  show "map (\<lambda>nm. xm_in_channels (snd nm)) (blocks net) = map (\<lambda>a. in_chs (h a)) cfg"
    by (auto simp: init_state_def)
  fix a
  from blocks_loop_fields[OF run] show "in_chs (h' a) = in_chs (h a)" by simp
next
  show "map_sum id
           (\<lambda>r. map (\<lambda>nm. (xm_in_channels (snd nm), xm_out_channels (snd nm))) (blocks (fst r)))
           (XceptionAligned_init mismatch_dicts [0, 1] default_args) =
         Inr [(64, 128), (999, 256)]"
    by code_simp
qed

theorem no_channel_check_counterexample:
  "map_sum id (\<lambda>r. map (\<lambda>nm. (xm_in_channels (snd nm), xm_out_channels (snd nm))) (blocks (fst r)))
     (XceptionAligned_init mismatch_dicts [0, 1] default_args) = Inr [(64, 128), (999, 256)]"
  by code_simp

theorem no_channel_check_witness:
  "map (\<lambda>nm. xm_in_channels (snd nm))
     (blocks (fst (projr (XceptionAligned_init mismatch_dicts [0, 1] default_args)))) = [64, 999] \<and>
   in_chs (snd (projr (XceptionAligned_init mismatch_dicts [0, 1] default_args)) 1) = 999"
proof -
  from no_channel_check[OF mismatch_built]
  have "map (\<lambda>nm. xm_in_channels (snd nm))
          (blocks (fst (projr (XceptionAligned_init mismatch_dicts [0, 1] default_args)))) =
        map (\<lambda>a. in_chs (mismatch_dicts a)) [0, 1] \<and>
        (\<forall>a. in_chs (snd (projr (XceptionAligned_init mismatch_dicts [0, 1] default_args)) a) =
              in_chs (mismatch_dicts a))"
    by blast
  then show ?thesis by (simp add: mismatch_dicts_def block_dict_def)
qed

lemma init_state_simps [simp]:
  "curr_stride init_state = 2" "curr_dilation init_state = 1" "st_blocks init_state = []"
  "st_num_features init_state = None"
  "st_feature_info init_state = [\<lparr>num_chs = 64, reduction = 2, module = ''stem.1''\<rparr>]"
  by (simp_all add: init_state_def)

lemma middle_step_built:
  "block_step 16 default_xtra 3 3 (xception41_dicts, state_16_2) =
     Inr (fst (projr (block_step 16 default_xtra 3 3 (xception41_dicts, state_16_2))),
          snd (projr (block_step 16 default_xtra 3 3 (xception41_dicts, state_16_2))))"
proof -
  have "\<not> isl (block_step 16 default_xtra 3 3 (xception41_dicts, state_16_2))" by code_simp
  then show ?thesis by simp
qed

text \<open>
  C7. For a block whose stride is 1 the planning step raises no feature flag, leaves
  \<open>curr_stride\<close> and \<open>curr_dilation\<close> as they are and assigns the running dilation to the
  dict, whatever \<open>output_stride\<close> is. The loop iteration of such a block leaves the running
  stride, the running dilation and the feature-info list unchanged, keeps the dict's
  stride at 1, and builds the block with stride 1 in all three units and the running
  dilation in all three.
\<close>

theorem stride1_block:
  assumes "stride (h a) = 1"
  shows "plan_block os (curr_stride s) (curr_dilation s) (h a) =
           (False, curr_stride s, curr_dilation s, (h a)\<lparr>dilation := Some (curr_dilation s)\<rparr>) \<and>
         (\<forall>h' s'. block_step os xtra i a (h, s) = Inr (h', s') \<longrightarrow>
            curr_stride s' = curr_stride s \<and> curr_dilation s' = curr_dilation s \<and>
            st_feature_info s' = st_feature_info s \<and>
            stride (h' a) = 1 \<and> dilation (h' a) = Some (curr_dilation s) \<and>
            (\<exists>m. st_blocks s' = st_blocks s @ [(str_nat i, m)] \<and>
                 unit_strides m = [Some 1, Some 1, Some 1] \<and>
                 unit_dilations m = replicate 3 (Some (curr_dilation s))))"
proof (intro conjI allI impI)
  show "plan_block os (curr_stride s) (curr_dilation s) (h a) =
           (False, curr_stride s, curr_dilation s, (h a)\<lparr>dilation := Some (curr_dilation s)\<rparr>)"
    using assms by (simp add: plan_block_def Let_def)
next
  fix h' s' assume st: "block_step os xtra i a (h, s) = Inr (h', s')"
  from block_step_cases[OF st] assms
  have c: "curr_stride s' = curr_stride s" "curr_dilation s' = curr_dilation s"
    "st_feature_info s' = st_feature_info s" "stride (h' a) = 1"
    by auto
  from block_step_built[OF st] c(4) obtain m where
    m: "st_blocks s' = st_blocks s @ [(str_nat i, m)]"
       "unit_strides m = [Some 1, Some 1, Some 1]"
       "unit_dilations m = replicate 3 (Some (curr_dilation s))"
       "dilation (h' a) = Some (curr_dilation s)"
    by auto
  from c show "curr_stride s' = curr_stride s" "curr_dilation s' = curr_dilation s"
    "st_feature_info s' = st_feature_info s" "stride (h' a) = 1" by simp_all
  from m show "dilation (h' a) = Some (curr_dilation s)" by simp
  from m show "\<exists>m. st_blocks s' = st_blocks s @ [(str_nat i, m)] \<and>
                 unit_strides m = [Some 1, Some 1, Some 1] \<and>
                 unit_dilations m = replicate 3 (Some (curr_dilation s))" by blast
qed

theorem stride1_block_witness:
  "plan_block 16 16 2 middle_flow_dict = (False, 16, 2, middle_flow_dict\<lparr>dilation := Some 2\<rparr>) \<and>
   curr_stride (snd (projr (block_step 16 default_xtra 3 3 (xception41_dicts, state_16_2)))) = 16 \<and>
   curr_dilation (snd (projr (block_step 16 default_xtra 3 3 (xception41_dicts, state_16_2)))) = 2 \<and>
   st_feature_info (snd (projr (block_step 16 default_xtra 3 3 (xception41_dicts, state_16_2)))) =
     [\<lparr>num_chs = 64, reduction = 2, module = ''stem.1''\<rparr>] \<and>
   stride (fst (projr (block_step 16 default_xtra 3 3 (xception41_dicts, state_16_2))) 3) = 1 \<and>
   dilation (fst (projr (block_step 16 default_xtra 3 3 (xception41_dicts, state_16_2))) 3) = Some 2"
proof -
  have s1: "stride (xception41_dicts 3) = 1"
    by (simp add: xception41_dicts_def block_dict_def)
  have d: "xception41_dicts 3 = middle_flow_dict"
    by (simp add: xception41_dicts_def middle_flow_dict_def)
  have st: "curr_stride state_16_2 = 16" "curr_dilation state_16_2 = 2"
    "st_feature_info state_16_2 = [\<lparr>num_chs = 64, reduction = 2, module = ''stem.1''\<rparr>]"
    by (simp_all add: state_16_2_def)
  note t = stride1_block[where h = xception41_dicts and a = 3 and os = 16 and s = state_16_2
      and xtra = default_xtra and i = 3, OF s1]
  from conjunct1[OF t]
  have pb: "plan_block 16 16 2 middle_flow_dict = (False, 16, 2, middle_flow_dict\<lparr>dilation := Some 2\<rparr>)"
    by (simp add: d st)
  note r = conjunct2[OF t, rule_format, OF middle_step_built]
  from pb r show ?thesis by (simp add: st)
qed

lemma single_built:
  "XceptionAligned_init single_dicts [0] default_args =
     Inr (fst (projr (XceptionAligned_init single_dicts [0] default_args)),
          snd (projr (XceptionAligned_init single_dicts [0] default_args)))"
proof -
  have "\<not> isl (XceptionAligned_init single_dicts [0] default_args)" by code_simp
  then show ?thesis by simp
qed

text \<open>
  C10. Whenever construction succeeds, the feature-info list starts with the entry of the
  stem, 64 channels at reduction 2 under the module name \<open>stem.1\<close>, and every entry after
  it names a module under \<open>blocks.\<close>.
\<close>

theorem stem_feature_first:
  assumes "XceptionAligned_init h cfg args = Inr (net, h')"
  shows "feature_info net =
           \<lparr>num_chs = 64, reduction = 2, module = ''stem.1''\<rparr> # tl (feature_info net) \<and>
         list_all (\<lambda>e. take 7 (module e) = ''blocks.'') (tl (feature_info net))"
proof -
  from XceptionAligned_init_Inr[OF assms] obtain s where
    run: "blocks_loop (a_output_stride args) (xtra_args_of args) 0 cfg (h, init_state) = Inr (h', s)"
    and fi: "feature_info net = st_feature_info s @
             [\<lparr>num_chs = num_features net, reduction = curr_stride s,
               module = ''blocks.'' @ str_int (int (length (st_blocks s)) - 1)\<rparr>]"
    by blast
  from blocks_loop_result[OF run] obtain nf where
    nf: "st_feature_info s = st_feature_info init_state @ nf"
        "list_all (\<lambda>e. take 7 (module e) = ''blocks.'') nf" by blast
  from fi nf show ?thesis by simp
qed

theorem stem_feature_first_witness:
  "feature_info (fst (projr (XceptionAligned_init single_dicts [0] default_args))) =
     \<lparr>num_chs = 64, reduction = 2, module = ''stem.1''\<rparr> #
     tl (feature_info (fst (projr (XceptionAligned_init single_dicts [0] default_args)))) \<and>
   list_all (\<lambda>e. take 7 (module e) = ''blocks.'')
     (tl (feature_info (fst (projr (XceptionAligned_init single_dicts [0] default_args)))))"
  using stem_feature_first[OF single_built] .

subsection \<open>The planner\<close>

lemma take_take_le: "j \<le> k \<Longrightarrow> take k xs = take j xs @ drop j (take k xs)"
  by (metis append_take_drop_id min.absorb1 take_take)

lemma run16_built:
  "xception41_run16 k = Inr (fst (projr (xception41_run16 k)), snd (projr (xception41_run16 k)))"
  if "\<not> isl (xception41_run16 k)"
  using that by simp

lemma run16_3: "\<not> isl (xception41_run16 3)"
  by code_simp

lemma run16_13: "\<not> isl (xception41_run16 13)"
  by code_simp

lemma run16_values:
  "curr_stride (snd (projr (xception41_run16 3))) = 16"
  "curr_dilation (snd (projr (xception41_run16 3))) = 1"
  "curr_stride (snd (projr (xception41_run16 13))) = 16"
  "curr_dilation (snd (projr (xception41_run16 13))) = 2"
  by code_simp+

lemma run16_absorbed:
  "absorbed xception41_dicts (fst (projr (xception41_run16 13))) (take 13 xception41_block_cfg) = {4}"
  by code_simp

text \<open>
  C1. Let \<open>output_stride\<close> be 8, 16 or 32, and take the builder's state after any \<open>j\<close> and
  any later \<open>k\<close> blocks of a block list (after all of them when \<open>k\<close> is the length of the
  list or more). The running stride after \<open>k\<close> blocks does not exceed \<open>output_stride\<close>;
  neither the running stride nor the running dilation has decreased from \<open>j\<close> to \<open>k\<close>; and
  the running dilation after \<open>k\<close> blocks is the product of the declared strides of the
  dicts whose stride was absorbed, those declared above 1 and rewritten to 1.
\<close>

theorem planner_invariants:
  assumes "os \<in> {8, 16, 32}"
    and "j \<le> k"
    and "blocks_loop os xtra 0 (take j cfg) (h, init_state) = Inr (hj, sj)"
    and "blocks_loop os xtra 0 (take k cfg) (h, init_state) = Inr (hk, sk)"
  shows "curr_stride sk \<le> os \<and>
         curr_stride sj \<le> curr_stride sk \<and>
         curr_dilation sj \<le> curr_dilation sk \<and>
         curr_dilation sk = (\<Prod>a\<in>absorbed h hk (take k cfg). stride (h a))"
proof -
  have os2: "curr_stride init_state \<le> os" using assms(1) by auto
  from blocks_loop_mono[OF assms(4)] os2 have 1: "curr_stride sk \<le> os" by simp
  from blocks_loop_mono[OF assms(3)] have pos: "0 < curr_stride sj" "0 < curr_dilation sj"
    by simp_all
  from assms(4) take_take_le[OF assms(2), of cfg]
  have "blocks_loop os xtra 0 (take j cfg @ drop j (take k cfg)) (h, init_state) = Inr (hk, sk)"
    by simp
  with assms(3)
  have seg: "blocks_loop os xtra (0 + length (take j cfg)) (drop j (take k cfg)) (hj, sj) = Inr (hk, sk)"
    by (simp add: blocks_loop_append)
  from blocks_loop_mono[OF seg pos]
  have 2: "curr_stride sj \<le> curr_stride sk" "curr_dilation sj \<le> curr_dilation sk" by simp_all
  from blocks_loop_dilation[OF assms(4)]
  have 3: "curr_dilation sk = (\<Prod>a\<in>absorbed h hk (take k cfg). stride (h a))" by simp
  from 1 2 3 show ?thesis by simp
qed

theorem planner_invariants_witness:
  "curr_stride (snd (projr (xception41_run16 13))) \<le> 16 \<and>
   curr_stride (snd (projr (xception41_run16 3))) \<le> curr_stride (snd (projr (xception41_run16 13))) \<and>
   curr_dilation (snd (projr (xception41_run16 3))) \<le> curr_dilation (snd (projr (xception41_run16 13))) \<and>
   curr_dilation (snd (projr (xception41_run16 13))) =
     (\<Prod>a\<in>absorbed xception41_dicts (fst (projr (xception41_run16 13))) (take 13 xception41_block_cfg).
        stride (xception41_dicts a)) \<and>
   absorbed xception41_dicts (fst (projr (xception41_run16 13))) (take 13 xception41_block_cfg) = {4} \<and>
   curr_stride (snd (projr (xception41_run16 13))) = 16 \<and>
   curr_dilation (snd (projr (xception41_run16 13))) = 2"
proof -
  have os: "(16::int) \<in> {8, 16, 32}" by simp
  have le: "(3::nat) \<le> 13" by simp
  note t = planner_invariants[OF os le
          run16_built[OF run16_3, unfolded xception41_run16_def]
          run16_built[OF run16_13, unfolded xception41_run16_def],
          folded xception41_run16_def]
  from t run16_absorbed run16_values(3,4) show ?thesis by blast
qed

subsection \<open>The feature-info list\<close>

lemma blocks_loop_feature_count_distinct:
  assumes "blocks_loop os xtra i as (h, s) = Inr (h', s')" and "distinct as"
  shows "length (st_feature_info s') =
           length (st_feature_info s) + length (filter (\<lambda>a. 1 < stride (h a)) as)"
  using assms
proof (induction as arbitrary: i h s)
  case Nil
  then show ?case by simp
next
  case (Cons a as)
  from Cons.prems(1) obtain h1 s1 where
    st: "block_step os xtra i a (h, s) = Inr (h1, s1)" and
    rest: "blocks_loop os xtra (Suc i) as (h1, s1) = Inr (h', s')"
    by (rule blocks_loop_Cons_Inr)
  from Cons.prems(2) have d: "distinct as" and na: "a \<notin> set as" by simp_all
  from block_step_cases[OF st] na have same: "x \<in> set as \<Longrightarrow> h1 x = h x" for x
    by auto
  then have f: "filter (\<lambda>a. 1 < stride (h1 a)) as = filter (\<lambda>a. 1 < stride (h a)) as"
    by (auto intro: filter_cong)
  from block_step_feature[OF st] obtain e where
    "st_feature_info s1 = st_feature_info s @ (if 1 < stride (h a) then [e] else [])" by blast
  with Cons.IH[OF rest d] f show ?case by simp
qed

lemma xception41_os16_eq:
  "xception41 (default_args\<lparr>a_output_stride := 16\<rparr>) =
     XceptionAligned_init xception41_dicts xception41_block_cfg
       (default_args\<lparr>a_output_stride := 16,
          a_norm_kwargs := Some [(''eps'', 0.001), (''momentum'', 0.1)]\<rparr>)"
  by (simp add: xception41_def default_args_def)

lemma xception41_built:
  "xception41 (default_args\<lparr>a_output_stride := 16\<rparr>) =
     Inr (fst (projr (xception41 (default_args\<lparr>a_output_stride := 16\<rparr>))),
          snd (projr (xception41 (default_args\<lparr>a_output_stride := 16\<rparr>))))"
proof -
  have "\<not> isl (xception41 (default_args\<lparr>a_output_stride := 16\<rparr>))" by code_simp
  then show ?thesis by simp
qed

text \<open>
  C4, as the code has it. The feature-info list has the entry of the stem, one entry for
  every block whose stride is greater than 1, kept or absorbed, and the trailing entry:
  its length is the number of blocks built with a stride above 1, plus the number of
  dicts whose stride was absorbed, plus 2. For a list of distinct dicts that is the
  number of blocks declared with a stride above 1, plus 2. The counterexample is one
  block of stride 1: the list has the two entries of the stem and of the last block.
\<close>

theorem feature_info_length:
  assumes "XceptionAligned_init h cfg args = Inr (net, h')"
  shows "length (feature_info net) =
           length (filter (\<lambda>nm. 1 < block_stride (snd nm)) (blocks net)) + card (absorbed h h' cfg) + 2 \<and>
         (distinct cfg \<longrightarrow>
            length (feature_info net) = length (filter (\<lambda>a. 1 < stride (h a)) cfg) + 2)"
proof -
  from XceptionAligned_init_Inr[OF assms] obtain s where
    run: "blocks_loop (a_output_stride args) (xtra_args_of args) 0 cfg (h, init_state) = Inr (h', s)"
    and b: "blocks net = st_blocks s"
    and fi: "feature_info net = st_feature_info s @
             [\<lparr>num_chs = num_features net, reduction = curr_stride s,
               module = ''blocks.'' @ str_int (int (length (st_blocks s)) - 1)\<rparr>]"
    by blast
  from blocks_loop_result[OF run] obtain nb nf where
    r: "st_blocks s = st_blocks init_state @ nb" "st_feature_info s = st_feature_info init_state @ nf"
       "length nf = length (filter (\<lambda>nm. 1 < block_stride (snd nm)) nb) + card (absorbed h h' cfg)"
    by blast
  from r b fi have 1: "length (feature_info net) =
           length (filter (\<lambda>nm. 1 < block_stride (snd nm)) (blocks net)) + card (absorbed h h' cfg) + 2"
    by simp
  have 2: "length (feature_info net) = length (filter (\<lambda>a. 1 < stride (h a)) cfg) + 2"
    if "distinct cfg"
    using blocks_loop_feature_count_distinct[OF run that] fi by simp
  from 1 2 show ?thesis by simp
qed

theorem feature_info_length_counterexample:
  "map_sum id
     (\<lambda>r. (length (feature_info (fst r)),
           length (filter (\<lambda>nm. 1 < block_stride (snd nm)) (blocks (fst r))),
           card (absorbed single_dicts (snd r) [0]),
           length (filter (\<lambda>a. 1 < stride (single_dicts a)) [0])))
     (XceptionAligned_init single_dicts [0] default_args) = Inr (2, 0, 0, 0)"
  by code_simp

theorem feature_info_length_witness:
  "length (feature_info (fst (projr (xception41 (default_args\<lparr>a_output_stride := 16\<rparr>))))) = 6 \<and>
   length (filter (\<lambda>nm. 1 < block_stride (snd nm))
            (blocks (fst (projr (xception41 (default_args\<lparr>a_output_stride := 16\<rparr>)))))) = 3 \<and>
   card (absorbed xception41_dicts (snd (projr (xception41 (default_args\<lparr>a_output_stride := 16\<rparr>))))
           xception41_block_cfg) = 1 \<and>
   distinct [0, 1::nat] \<and>
   length (feature_info (fst (projr (XceptionAligned_init mismatch_dicts [0, 1] default_args)))) = 3"
proof -
  have 2: "length (filter (\<lambda>nm. 1 < block_stride (snd nm))
            (blocks (fst (projr (xception41 (default_args\<lparr>a_output_stride := 16\<rparr>)))))) = 3"
    by code_simp
  have 3: "card (absorbed xception41_dicts (snd (projr (xception41 (default_args\<lparr>a_output_stride := 16\<rparr>))))
           xception41_block_cfg) = 1"
    by code_simp
  have d: "distinct [0, 1::nat]" by simp
  from feature_info_length[OF mismatch_built] d
  have "length (feature_info (fst (projr (XceptionAligned_init mismatch_dicts [0, 1] default_args)))) =
          length (filter (\<lambda>a. 1 < stride (mismatch_dicts a)) [0, 1]) + 2"
    by blast
  then have 4: "length (feature_info (fst (projr (XceptionAligned_init mismatch_dicts [0, 1] default_args)))) = 3"
    by (simp add: mismatch_dicts_def block_dict_def)
  from feature_info_length[OF xception41_built[unfolded xception41_os16_eq]] 2 3 4 d
  show ?thesis by (simp add: xception41_os16_eq)
qed

subsection \<open>Xception-41 with output stride 16\<close>

text \<open>
  C2, as the code has it. Xception-41, whose block strides are 2, 2, 2, eight times 1,
  2, 1, built with \<open>output_stride=16\<close>: the exit-flow block of declared stride 2 (block 11)
  is built with stride 1 in all its units and with the dilation 1 that was running when it
  was reached; the running dilation becomes 2 after it, and it is the last block (block
  12) that is built with dilation 2. The running stride is 16 before that block and
  stays 16, and no feature-info entry has a reduction above 16. The counterexample reads
  the dilation of block 11: it is 1, not 2.
\<close>

theorem xception41_os16:
  "map_sum id
     (\<lambda>r. (map (\<lambda>a. stride (xception41_dicts a)) xception41_block_cfg,
           fst (blocks (fst r) ! 11),
           unit_strides (snd (blocks (fst r) ! 11)),
           unit_dilations (snd (blocks (fst r) ! 11)),
           fst (blocks (fst r) ! 12),
           unit_dilations (snd (blocks (fst r) ! 12)),
           map reduction (feature_info (fst r))))
     (xception41 (default_args\<lparr>a_output_stride := 16\<rparr>)) =
   Inr ([2, 2, 2, 1, 1, 1, 1, 1, 1, 1, 1, 2, 1],
        ''11'', [Some 1, Some 1, Some 1], [Some 1, Some 1, Some 1],
        ''12'', [Some 2, Some 2, Some 2],
        [2, 4, 8, 16, 16, 16]) \<and>
   map_sum id (\<lambda>r. (curr_stride (snd r), curr_dilation (snd r)))
     (blocks_loop 16 (xtra_args_of (default_args\<lparr>a_output_stride := 16\<rparr>)) 0
        xception41_block_cfg (xception41_dicts, init_state)) = Inr (16, 2) \<and>
   map_sum id (\<lambda>r. (curr_stride (snd r), curr_dilation (snd r)))
     (blocks_loop 16 (xtra_args_of (default_args\<lparr>a_output_stride := 16\<rparr>)) 0
        (take 11 xception41_block_cfg) (xception41_dicts, init_state)) = Inr (16, 1)"
  by code_simp

theorem xception41_os16_counterexample:
  "map_sum id
     (\<lambda>r. (stride (snd r 4), dilation (snd r 4), unit_dilations (snd (blocks (fst r) ! 11))))
     (xception41 (default_args\<lparr>a_output_stride := 16\<rparr>)) =
   Inr (1, Some 1, [Some 1, Some 1, Some 1])"
  by code_simp


subsection \<open>The classification head\<close>

lemma headless_built:
  "XceptionAligned_init single_dicts [0] (default_args\<lparr>a_num_classes := 0\<rparr>) =
     Inr (headless_net, snd (projr (XceptionAligned_init single_dicts [0] (default_args\<lparr>a_num_classes := 0\<rparr>))))"
proof -
  have "\<not> isl (XceptionAligned_init single_dicts [0] (default_args\<lparr>a_num_classes := 0\<rparr>))"
    by code_simp
  then show ?thesis by (simp add: headless_net_def)
qed

lemma headless_num_features: "num_features headless_net = 128"
  by code_simp

text \<open>
  C9, as the code has it. With \<open>num_classes = 0\<close> the projection of the head is the
  identity, and the head's output is the pooled and flattened feature vector after the
  head's dropout stage: the pooled vector itself when \<open>drop_rate\<close> is 0, the result of the
  dropout call on it otherwise. \<open>reset_classifier\<close> replaces the head by a new one over the
  same \<open>num_features\<close>, whose projection is a dense layer of the new width when that is
  positive, and changes nothing else: \<open>num_features\<close>, the stem, the blocks, the
  feature-info list and the features computed stay as they were. The counterexample is a
  head with \<open>drop_rate = 0.5\<close> in training mode: its output is the dropout of the pooled
  vector.
\<close>

theorem head_without_classes:
  "ch_fc (ClassifierHead_init nf 0 pool dr) = Identity \<and>
   ClassifierHead_forward P training (ClassifierHead_init nf 0 pool dr) x =
     (if dr \<noteq> 0 then p_dropout P dr training (p_flatten P 1 (p_pool P pool x))
      else p_flatten P 1 (p_pool P pool x)) \<and>
   (XceptionAligned_init h cfg args = Inr (net, h') \<and> a_num_classes args = 0 \<longrightarrow>
      forward P training net x =
        (if a_drop_rate args \<noteq> 0
         then p_dropout P (a_drop_rate args) training
                (p_flatten P 1 (p_pool P (a_global_pool args) (forward_features P net x)))
         else p_flatten P 1 (p_pool P (a_global_pool args) (forward_features P net x)))) \<and>
   num_features (reset_classifier self n gp) = num_features self \<and>
   stem (reset_classifier self n gp) = stem self \<and>
   blocks (reset_classifier self n gp) = blocks self \<and>
   feature_info (reset_classifier self n gp) = feature_info self \<and>
   num_classes (reset_classifier self n gp) = num_classes self \<and>
   drop_rate (reset_classifier self n gp) = drop_rate self \<and>
   forward_features P (reset_classifier self n gp) x = forward_features P self x \<and>
   head (reset_classifier self n gp) =
     ClassifierHead_init (num_features self) n gp (drop_rate self) \<and>
   get_classifier (reset_classifier self n gp) =
     (if 0 < n then Linear (num_features self) n True else Identity)"
proof -
  have 1: "ch_fc (ClassifierHead_init nf 0 pool dr) = Identity"
    by (simp add: ClassifierHead_init_def)
  have 2: "ClassifierHead_forward P training (ClassifierHead_init nf 0 pool dr) x =
     (if dr \<noteq> 0 then p_dropout P dr training (p_flatten P 1 (p_pool P pool x))
      else p_flatten P 1 (p_pool P pool x))" for nf pool dr x
    by (simp add: ClassifierHead_forward_def ClassifierHead_init_def Let_def)
  have 3: "forward P training net x =
        (if a_drop_rate args \<noteq> 0
         then p_dropout P (a_drop_rate args) training
                (p_flatten P 1 (p_pool P (a_global_pool args) (forward_features P net x)))
         else p_flatten P 1 (p_pool P (a_global_pool args) (forward_features P net x)))"
    if "XceptionAligned_init h cfg args = Inr (net, h') \<and> a_num_classes args = 0"
  proof -
    from that XceptionAligned_init_Inr[of h cfg args net h']
    have "head net = ClassifierHead_init (num_features net) 0 (a_global_pool args) (a_drop_rate args)"
      by auto
    then show ?thesis by (simp add: forward_def 2)
  qed
  have 4: "num_features (reset_classifier self n gp) = num_features self \<and>
   stem (reset_classifier self n gp) = stem self \<and>
   blocks (reset_classifier self n gp) = blocks self \<and>
   feature_info (reset_classifier self n gp) = feature_info self \<and>
   num_classes (reset_classifier self n gp) = num_classes self \<and>
   drop_rate (reset_classifier self n gp) = drop_rate self \<and>
   forward_features P (reset_classifier self n gp) x = forward_features P self x \<and>
   head (reset_classifier self n gp) =
     ClassifierHead_init (num_features self) n gp (drop_rate self) \<and>
   get_classifier (reset_classifier self n gp) =
     (if 0 < n then Linear (num_features self) n True else Identity)"
    by (simp add: reset_classifier_def forward_features_def get_classifier_def ClassifierHead_init_def)
  from 1 2 3 4 show ?thesis by blast
qed

theorem head_without_classes_counterexample:
  "ClassifierHead_forward trace_prims True (ClassifierHead_init 2048 0 ''avg'' (1 / 2)) Input =
     DropoutT (1 / 2) True (FlattenT 1 (PoolT ''avg'' Input)) \<and>
   ClassifierHead_forward trace_prims True (ClassifierHead_init 2048 0 ''avg'' (1 / 2)) Input \<noteq>
     FlattenT 1 (PoolT ''avg'' Input)"
  by (simp add: ClassifierHead_forward_def ClassifierHead_init_def trace_prims_def Let_def)

theorem head_without_classes_witness:
  "forward trace_prims True headless_net Input =
     FlattenT 1 (PoolT ''avg'' (forward_features trace_prims headless_net Input)) \<and>
   get_classifier (reset_classifier headless_net 10 ''avg'') = Linear 128 10 True \<and>
   num_features (reset_classifier headless_net 10 ''avg'') = 128"
proof -
  have a: "a_num_classes (default_args\<lparr>a_num_classes := 0\<rparr>) = 0" by simp
  note t = head_without_classes[where h = single_dicts and cfg = "[0]"
      and args = "default_args\<lparr>a_num_classes := 0\<rparr>" and net = headless_net
      and h' = "snd (projr (XceptionAligned_init single_dicts [0] (default_args\<lparr>a_num_classes := 0\<rparr>)))"
      and P = trace_prims and training = True and x = Input
      and self = headless_net and n = 10 and gp = "''avg''"]
  from t headless_built a
  have "forward trace_prims True headless_net Input =
        (if a_drop_rate (default_args\<lparr>a_num_classes := 0\<rparr>) \<noteq> 0
         then p_dropout trace_prims (a_drop_rate (default_args\<lparr>a_num_classes := 0\<rparr>)) True
                (p_flatten trace_prims 1 (p_pool trace_prims (a_global_pool (default_args\<lparr>a_num_classes := 0\<rparr>))
                   (forward_features trace_prims headless_net Input)))
         else p_flatten trace_prims 1 (p_pool trace_prims (a_global_pool (default_args\<lparr>a_num_classes := 0\<rparr>))
                   (forward_features trace_prims headless_net Input)))"
    by blast
  then have 1: "forward trace_prims True headless_net Input =
     FlattenT 1 (PoolT ''avg'' (forward_features trace_prims headless_net Input))"
    by (simp add: default_args_def trace_prims_def)
  from t have "get_classifier (reset_classifier headless_net 10 ''avg'') =
     (if (0::int) < 10 then Linear (num_features headless_net) 10 True else Identity)"
    and "num_features (reset_classifier headless_net 10 ''avg'') = num_features headless_net"
    by blast+
  with 1 show ?thesis by (simp add: headless_num_features)
qed

end
